theory Spec2Isabelle
  imports Complex_Main "HOL-Library.Word" "HOL-Library.Signed_Division"
begin

unbundle bit_operations_syntax

section \<open>Machine types\<close>

text \<open>
  The driver is C++ for the Arduino cores. \<open>uint8_t\<close> and \<open>byte\<close> are 8-bit words,
  \<open>uint16_t\<close> is a 16-bit word. The width of \<open>int\<close> depends on the core: 16 bits on
  AVR, 32 bits on the ARM and ESP cores; it is a parameter of the model, \<open>int_width\<close>.
  With a 32-bit \<open>int\<close> a \<open>uint16_t\<close> operand is promoted to \<open>int\<close>; with a 16-bit
  \<open>int\<close> it stays an unsigned 16-bit value and the other operand is converted to it.
  The width decides the value of the product \<open>uint16_t * 10\<close> (\<open>u16_times_10\<close>). The
  shifts, masks and the quotient \<open>uint16_t / 10\<close> of the driver have the same value
  for both widths and are written in \<open>c_int\<close>, the 32-bit form. Bit-fields are allocated
  from the least significant bit of their storage unit, as GCC does on every
  little-endian Arduino target.

  \<open>float\<close> and \<open>double\<close> values are modelled by the rationals they denote. Every
  floating-point value the driver produces is \<open>n * 5 / 4\<close> or \<open>n * 10\<close> for a 16-bit
  \<open>n\<close>, which binary32 and binary64 represent exactly (lemma \<open>scaled_values_exact\<close>; the wrapped
  product of a 16-bit \<open>int\<close> is an integer below \<open>2 ^ 16\<close>), or
  the quotient \<open>n / 1.25\<close>, which is only ever truncated to an integer.
\<close>

type_synonym u8 = "8 word"
type_synonym u16 = "16 word"
type_synonym c_int = "32 word"

datatype int_width = Int16 | Int32

section \<open>Register map (INA260.h)\<close>

definition INA260_CONFIG_REGISTER :: u8 where "INA260_CONFIG_REGISTER = 0x00"
definition INA260_CURRENT_REGISTER :: u8 where "INA260_CURRENT_REGISTER = 0x01"
definition INA260_VOLTAGE_REGISTER :: u8 where "INA260_VOLTAGE_REGISTER = 0x02"
definition INA260_POWER_REGISTER :: u8 where "INA260_POWER_REGISTER = 0x03"
definition INA260_MASK_ENABLE_REGISTER :: u8 where "INA260_MASK_ENABLE_REGISTER = 0x06"
definition INA260_ALERT_LIMIT_REGISTER :: u8 where "INA260_ALERT_LIMIT_REGISTER = 0x07"
definition INA260_MANUFACTURER_ID_REGISTER :: u8 where "INA260_MANUFACTURER_ID_REGISTER = 0xFE"
definition INA260_DIE_ID_REGISTER :: u8 where "INA260_DIE_ID_REGISTER = 0xFF"

section \<open>The two-wire bus\<close>

text \<open>
  The Wire library is not part of the repository. The driver is verified against its
  documented interface: \<open>beginTransmission\<close> and \<open>write\<close> fill a transmit buffer,
  \<open>endTransmission\<close> sends it as one bus transaction and returns a status byte (0 for
  success), \<open>requestFrom\<close> is one bus transaction that fills the receive buffer with at
  most the requested number of bytes, \<open>available\<close> and \<open>read\<close> consume that buffer.

  What the devices on the bus answer is a parameter, \<open>bus_env\<close>: a deterministic function
  of the transactions issued so far. \<open>bus_env\<close> also carries the width of \<open>int\<close> on the
  core the driver is compiled for. The state records every completed transaction in
  \<open>trace\<close>, oldest first.
\<close>

datatype bus_event = Transmission u8 "u8 list" | Request u8 nat

record bus_env =
  int_width :: int_width
  ack :: "bus_event list \<Rightarrow> u8 \<Rightarrow> u8 list \<Rightarrow> u8"
  reply :: "bus_event list \<Rightarrow> u8 \<Rightarrow> nat \<Rightarrow> u8 list"

text \<open>
  The fields of the \<open>INA260\<close> object are \<open>address\<close>, \<open>devices\<close> and \<open>deviceCount\<close>.
  \<open>deviceCount\<close> is \<open>None\<close> while it holds an indeterminate value. \<open>wireInitialized\<close> is
  the function-local static of \<open>begin\<close>; the remaining fields are the Wire library's.
\<close>

record state =
  address :: u8
  devices :: "u8 list"
  deviceCount :: "int option"
  wireInitialized :: bool
  txAddress :: u8
  txBuffer :: "u8 list"
  rxBuffer :: "u8 list"
  trace :: "bus_event list"

definition Wire_begin :: "state \<Rightarrow> state" where
  "Wire_begin st = st\<lparr>txBuffer := [], rxBuffer := []\<rparr>"

definition Wire_beginTransmission :: "u8 \<Rightarrow> state \<Rightarrow> state" where
  "Wire_beginTransmission a st = st\<lparr>txAddress := a, txBuffer := []\<rparr>"

definition Wire_write :: "u8 \<Rightarrow> state \<Rightarrow> state" where
  "Wire_write b st = st\<lparr>txBuffer := txBuffer st @ [b]\<rparr>"

definition Wire_endTransmission :: "bus_env \<Rightarrow> state \<Rightarrow> u8 \<times> state" where
  "Wire_endTransmission env st =
     (ack env (trace st) (txAddress st) (txBuffer st),
      st\<lparr>txBuffer := [], trace := trace st @ [Transmission (txAddress st) (txBuffer st)]\<rparr>)"

definition Wire_requestFrom :: "bus_env \<Rightarrow> u8 \<Rightarrow> nat \<Rightarrow> state \<Rightarrow> nat \<times> state" where
  "Wire_requestFrom env a n st =
     (let bytes = take n (reply env (trace st) a n)
      in (length bytes, st\<lparr>rxBuffer := bytes, trace := trace st @ [Request a n]\<rparr>))"

definition Wire_available :: "state \<Rightarrow> int" where
  "Wire_available st = int (length (rxBuffer st))"

text \<open>\<open>Wire.read()\<close> returns an \<open>int\<close>: the next byte, or -1 when the buffer is empty.\<close>

definition Wire_read :: "state \<Rightarrow> c_int \<times> state" where
  "Wire_read st =
     (case rxBuffer st of
        [] \<Rightarrow> (- 1, st)
      | b # bs \<Rightarrow> (ucast b, st\<lparr>rxBuffer := bs\<rparr>))"

section \<open>Register access (INA260.cpp)\<close>

definition readRegister :: "bus_env \<Rightarrow> u8 \<Rightarrow> state \<Rightarrow> u16 \<times> state" where
  "readRegister env reg st =
     (let st1 = Wire_beginTransmission (address st) st;
          st2 = Wire_write reg st1;
          (rc, st3) = Wire_endTransmission env st2;
          (n, st4) = Wire_requestFrom env (address st3) 2 st3
      in if Wire_available st4 = 2 then
           (let (m, st5) = Wire_read st4;
                msb = (ucast m :: u16);
                (l, st6) = Wire_read st5;
                lsb = (ucast l :: u16)
            in (ucast (push_bit 8 (ucast msb :: c_int) OR (ucast lsb :: c_int)), st6))
         else (0, st4))"

definition writeRegister :: "bus_env \<Rightarrow> u8 \<Rightarrow> u16 \<Rightarrow> state \<Rightarrow> bool \<times> state" where
  "writeRegister env reg v st =
     (let st1 = Wire_beginTransmission (address st) st;
          st2 = Wire_write reg st1;
          st3 = Wire_write (ucast (drop_bit 8 (ucast v :: c_int) AND 0xFF)) st2;
          st4 = Wire_write (ucast ((ucast v :: c_int) AND 0xFF)) st3;
          (rc, st5) = Wire_endTransmission env st4
      in (rc = 0, st5))"

text \<open>
  \<open>uint16_t * 1.25\<close> converts the integer to \<open>double\<close> and multiplies in floating
  point. \<open>uint16_t * 10\<close> is an integer product, converted afterwards: a product of two
  32-bit \<open>int\<close>s, or, with a 16-bit \<open>int\<close>, of two unsigned 16-bit values, which wraps
  modulo \<open>2 ^ 16\<close>.
\<close>

definition double_of_u16 :: "u16 \<Rightarrow> rat" where
  "double_of_u16 x = of_int (sint (ucast x :: c_int))"

fun u16_times_10 :: "int_width \<Rightarrow> u16 \<Rightarrow> int" where
  "u16_times_10 Int16 raw = uint (raw * 10)"
| "u16_times_10 Int32 raw = sint ((ucast raw :: c_int) * 10)"

definition double_of_int :: "int \<Rightarrow> rat" where
  "double_of_int x = of_int x"

definition readCurrent :: "bus_env \<Rightarrow> state \<Rightarrow> rat \<times> state" where
  "readCurrent env st =
     (let (raw, st1) = readRegister env INA260_CURRENT_REGISTER st
      in (double_of_u16 raw * 1.25, st1))"

definition readBusVoltage :: "bus_env \<Rightarrow> state \<Rightarrow> rat \<times> state" where
  "readBusVoltage env st =
     (let (raw, st1) = readRegister env INA260_VOLTAGE_REGISTER st
      in (double_of_u16 raw * 1.25, st1))"

definition readPower :: "bus_env \<Rightarrow> state \<Rightarrow> rat \<times> state" where
  "readPower env st =
     (let (raw, st1) = readRegister env INA260_POWER_REGISTER st
      in (double_of_int (u16_times_10 (int_width env) raw), st1))"

section \<open>Register overlays (INA260.h)\<close>

text \<open>
  The three unions overlay a packed struct of bit-fields on \<open>rawValue\<close>. A bit-field is
  given by its offset and width; the overlay is the raw 16-bit word. Assigning to a
  bit-field keeps the low \<open>width\<close> bits of the assigned value and leaves every other bit
  of the word as it was.
\<close>

type_synonym bitfield = "nat \<times> nat"

definition get_field :: "bitfield \<Rightarrow> u16 \<Rightarrow> u16" where
  "get_field f raw = take_bit (snd f) (drop_bit (fst f) raw)"

definition field_mask :: "bitfield \<Rightarrow> u16" where
  "field_mask f = push_bit (fst f) (mask (snd f))"

definition set_field :: "bitfield \<Rightarrow> u16 \<Rightarrow> u16 \<Rightarrow> u16" where
  "set_field f v raw = (raw AND NOT (field_mask f)) OR push_bit (fst f) (take_bit (snd f) v)"

text \<open>\<open>union ConfigurationRegister\<close>\<close>

definition mode :: bitfield where "mode = (0, 3)"
definition ishct :: bitfield where "ishct = (3, 3)"
definition vbusct :: bitfield where "vbusct = (6, 3)"
definition avg :: bitfield where "avg = (9, 3)"
definition rst :: bitfield where "rst = (15, 1)"

text \<open>\<open>union MaskEnableRegister\<close>\<close>

definition len :: bitfield where "len = (0, 1)"
definition apol :: bitfield where "apol = (1, 1)"
definition ovf :: bitfield where "ovf = (2, 1)"
definition cvrf :: bitfield where "cvrf = (3, 1)"
definition aff :: bitfield where "aff = (4, 1)"
definition cnvr :: bitfield where "cnvr = (10, 1)"
definition pol :: bitfield where "pol = (11, 1)"
definition bul :: bitfield where "bul = (12, 1)"
definition bol :: bitfield where "bol = (13, 1)"
definition ucl :: bitfield where "ucl = (14, 1)"
definition ocl :: bitfield where "ocl = (15, 1)"

datatype Mode =
  MODE_TRIG_POWER_DOWN | MODE_TRIG_ISH | MODE_TRIG_VBUS | MODE_TRIG_ISH_VBUS
| MODE_CONT_POWER_DOWN | MODE_CONT_ISH | MODE_CONT_VBUS | MODE_CONT_ISH_VBUS

datatype AveragingCount =
  AVG_1 | AVG_4 | AVG_16 | AVG_64 | AVG_128 | AVG_256 | AVG_512 | AVG_1024

datatype ConversionTime =
  TIME_140_us | TIME_204_us | TIME_332_us | TIME_558_us
| TIME_1_1_ms | TIME_2_116_ms | TIME_4_156_ms | TIME_8_244_ms

fun Mode_val :: "Mode \<Rightarrow> u16" where
  "Mode_val MODE_TRIG_POWER_DOWN = 0"
| "Mode_val MODE_TRIG_ISH = 1"
| "Mode_val MODE_TRIG_VBUS = 2"
| "Mode_val MODE_TRIG_ISH_VBUS = 3"
| "Mode_val MODE_CONT_POWER_DOWN = 4"
| "Mode_val MODE_CONT_ISH = 5"
| "Mode_val MODE_CONT_VBUS = 6"
| "Mode_val MODE_CONT_ISH_VBUS = 7"

fun AveragingCount_val :: "AveragingCount \<Rightarrow> u16" where
  "AveragingCount_val AVG_1 = 0"
| "AveragingCount_val AVG_4 = 1"
| "AveragingCount_val AVG_16 = 2"
| "AveragingCount_val AVG_64 = 3"
| "AveragingCount_val AVG_128 = 4"
| "AveragingCount_val AVG_256 = 5"
| "AveragingCount_val AVG_512 = 6"
| "AveragingCount_val AVG_1024 = 7"

fun ConversionTime_val :: "ConversionTime \<Rightarrow> u16" where
  "ConversionTime_val TIME_140_us = 0"
| "ConversionTime_val TIME_204_us = 1"
| "ConversionTime_val TIME_332_us = 2"
| "ConversionTime_val TIME_558_us = 3"
| "ConversionTime_val TIME_1_1_ms = 4"
| "ConversionTime_val TIME_2_116_ms = 5"
| "ConversionTime_val TIME_4_156_ms = 6"
| "ConversionTime_val TIME_8_244_ms = 7"

text \<open>The casts \<open>(Mode)reg.mode\<close> and so on, applied to a three-bit field.\<close>

definition Mode_of :: "u16 \<Rightarrow> Mode" where
  "Mode_of x =
     (if x = 0 then MODE_TRIG_POWER_DOWN else if x = 1 then MODE_TRIG_ISH
      else if x = 2 then MODE_TRIG_VBUS else if x = 3 then MODE_TRIG_ISH_VBUS
      else if x = 4 then MODE_CONT_POWER_DOWN else if x = 5 then MODE_CONT_ISH
      else if x = 6 then MODE_CONT_VBUS else MODE_CONT_ISH_VBUS)"

definition AveragingCount_of :: "u16 \<Rightarrow> AveragingCount" where
  "AveragingCount_of x =
     (if x = 0 then AVG_1 else if x = 1 then AVG_4
      else if x = 2 then AVG_16 else if x = 3 then AVG_64
      else if x = 4 then AVG_128 else if x = 5 then AVG_256
      else if x = 6 then AVG_512 else AVG_1024)"

definition ConversionTime_of :: "u16 \<Rightarrow> ConversionTime" where
  "ConversionTime_of x =
     (if x = 0 then TIME_140_us else if x = 1 then TIME_204_us
      else if x = 2 then TIME_332_us else if x = 3 then TIME_558_us
      else if x = 4 then TIME_1_1_ms else if x = 5 then TIME_2_116_ms
      else if x = 6 then TIME_4_156_ms else TIME_8_244_ms)"

section \<open>The driver (INA260.cpp)\<close>

text \<open>
  The constructor has an empty body: the object keeps whatever its storage held.
  \<open>begin\<close> is an Isabelle keyword, so the method is \<open>INA260_begin\<close> here.
\<close>

definition INA260 :: "state \<Rightarrow> state" where
  "INA260 st = st"

definition setAddress :: "u8 \<Rightarrow> state \<Rightarrow> state" where
  "setAddress addr st = st\<lparr>address := addr\<rparr>"

definition getAddress :: "state \<Rightarrow> u8" where
  "getAddress st = address st"

definition readConfigurationRegister :: "bus_env \<Rightarrow> state \<Rightarrow> u16 \<times> state" where
  "readConfigurationRegister env st = readRegister env INA260_CONFIG_REGISTER st"

definition writeConfigurationRegister :: "bus_env \<Rightarrow> u16 \<Rightarrow> state \<Rightarrow> bool \<times> state" where
  "writeConfigurationRegister env v st = writeRegister env INA260_CONFIG_REGISTER v st"

definition reset :: "bus_env \<Rightarrow> state \<Rightarrow> bool \<times> state" where
  "reset env st = writeConfigurationRegister env (set_field rst 1 0) st"

definition INA260_begin :: "bus_env \<Rightarrow> state \<Rightarrow> bool \<times> state" where
  "INA260_begin env st =
     (let st1 = (if \<not> wireInitialized st then (Wire_begin st)\<lparr>wireInitialized := True\<rparr> else st);
          (ok, st2) = reset env st1
      in (wireInitialized st2, st2))"

definition readMaskEnableRegister :: "bus_env \<Rightarrow> state \<Rightarrow> u16 \<times> state" where
  "readMaskEnableRegister env st = readRegister env INA260_MASK_ENABLE_REGISTER st"

definition writeMaskEnableRegister :: "bus_env \<Rightarrow> u16 \<Rightarrow> state \<Rightarrow> bool \<times> state" where
  "writeMaskEnableRegister env v st = writeRegister env INA260_MASK_ENABLE_REGISTER v st"

definition readAlertLimitRegister :: "bus_env \<Rightarrow> state \<Rightarrow> rat \<times> state" where
  "readAlertLimitRegister env st =
     (let (reg, st1) = readMaskEnableRegister env st
      in if get_field pol reg = 1 then
           (let (raw, st2) = readRegister env INA260_ALERT_LIMIT_REGISTER st1
            in (double_of_int (u16_times_10 (int_width env) raw), st2))
         else
           (let (raw, st2) = readRegister env INA260_ALERT_LIMIT_REGISTER st1
            in (double_of_u16 raw * 1.25, st2)))"

definition writeAlertLimitRegister :: "bus_env \<Rightarrow> u16 \<Rightarrow> state \<Rightarrow> bool \<times> state" where
  "writeAlertLimitRegister env v st = writeRegister env INA260_ALERT_LIMIT_REGISTER v st"

text \<open>
  \<open>uint16_t value = x / 1.25\<close> divides in floating point and truncates towards zero;
  \<open>uint16_t value = x / 10\<close> divides two \<open>int\<close>s. Both quotients fit 16 bits.
\<close>

definition int_div :: "c_int \<Rightarrow> c_int \<Rightarrow> c_int" where
  "int_div a b = word_of_int (sint a sdiv sint b)"

definition u16_of_double :: "rat \<Rightarrow> u16" where
  "u16_of_double x = word_of_int (if 0 \<le> x then \<lfloor>x\<rfloor> else \<lceil>x\<rceil>)"

definition setCurrentLimit :: "bus_env \<Rightarrow> u16 \<Rightarrow> state \<Rightarrow> bool \<times> state" where
  "setCurrentLimit env milliAmps st =
     writeAlertLimitRegister env (u16_of_double (double_of_u16 milliAmps / 1.25)) st"

definition setBusVoltageLimit :: "bus_env \<Rightarrow> u16 \<Rightarrow> state \<Rightarrow> bool \<times> state" where
  "setBusVoltageLimit env milliVolts st =
     writeAlertLimitRegister env (u16_of_double (double_of_u16 milliVolts / 1.25)) st"

definition setPowerLimit :: "bus_env \<Rightarrow> u16 \<Rightarrow> state \<Rightarrow> bool \<times> state" where
  "setPowerLimit env milliWatts st =
     writeAlertLimitRegister env (ucast (int_div (ucast milliWatts) 10)) st"

definition enableOverCurrentLimitAlert :: "bus_env \<Rightarrow> u16 \<Rightarrow> state \<Rightarrow> bool \<times> state" where
  "enableOverCurrentLimitAlert env milliAmps st =
     (let (reg, st1) = readMaskEnableRegister env st;
          reg = set_field ocl 1 reg;
          reg = set_field ucl 0 reg;
          reg = set_field bol 0 reg;
          reg = set_field bul 0 reg;
          reg = set_field pol 0 reg;
          (ok, st2) = setCurrentLimit env milliAmps st1
      in writeMaskEnableRegister env reg st2)"

definition enableUnderCurrentLimitAlert :: "bus_env \<Rightarrow> u16 \<Rightarrow> state \<Rightarrow> bool \<times> state" where
  "enableUnderCurrentLimitAlert env milliAmps st =
     (let (reg, st1) = readMaskEnableRegister env st;
          reg = set_field ocl 0 reg;
          reg = set_field ucl 1 reg;
          reg = set_field bol 0 reg;
          reg = set_field bul 0 reg;
          reg = set_field pol 0 reg;
          (ok, st2) = setCurrentLimit env milliAmps st1
      in writeMaskEnableRegister env reg st2)"

definition enableBusOvertLimitAlert :: "bus_env \<Rightarrow> u16 \<Rightarrow> state \<Rightarrow> bool \<times> state" where
  "enableBusOvertLimitAlert env milliVolts st =
     (let (reg, st1) = readMaskEnableRegister env st;
          reg = set_field ocl 0 reg;
          reg = set_field ucl 0 reg;
          reg = set_field bol 1 reg;
          reg = set_field bul 0 reg;
          reg = set_field pol 0 reg;
          (ok, st2) = setBusVoltageLimit env milliVolts st1
      in writeMaskEnableRegister env reg st2)"

definition enableBusUnderLimitAlert :: "bus_env \<Rightarrow> u16 \<Rightarrow> state \<Rightarrow> bool \<times> state" where
  "enableBusUnderLimitAlert env milliVolts st =
     (let (reg, st1) = readMaskEnableRegister env st;
          reg = set_field ocl 0 reg;
          reg = set_field ucl 0 reg;
          reg = set_field bol 0 reg;
          reg = set_field bul 1 reg;
          reg = set_field pol 0 reg;
          (ok, st2) = setBusVoltageLimit env milliVolts st1
      in writeMaskEnableRegister env reg st2)"

definition enableOverPowerLimitAlert :: "bus_env \<Rightarrow> u16 \<Rightarrow> state \<Rightarrow> bool \<times> state" where
  "enableOverPowerLimitAlert env milliWatts st =
     (let (reg, st1) = readMaskEnableRegister env st;
          reg = set_field ocl 0 reg;
          reg = set_field ucl 0 reg;
          reg = set_field bol 0 reg;
          reg = set_field bul 0 reg;
          reg = set_field pol 1 reg;
          (ok, st2) = setPowerLimit env milliWatts st1
      in writeMaskEnableRegister env reg st2)"

definition isMathOverFlow :: "bus_env \<Rightarrow> state \<Rightarrow> bool \<times> state" where
  "isMathOverFlow env st =
     (let (reg, st1) = readMaskEnableRegister env st in (get_field ovf reg \<noteq> 0, st1))"

definition isAlert :: "bus_env \<Rightarrow> state \<Rightarrow> bool \<times> state" where
  "isAlert env st =
     (let (reg, st1) = readMaskEnableRegister env st in (get_field aff reg \<noteq> 0, st1))"

definition clearAlert :: "bus_env \<Rightarrow> state \<Rightarrow> state" where
  "clearAlert env st = snd (readMaskEnableRegister env st)"

definition isAlertPolaritySet :: "bus_env \<Rightarrow> state \<Rightarrow> bool \<times> state" where
  "isAlertPolaritySet env st =
     (let (reg, st1) = readMaskEnableRegister env st in (get_field apol reg \<noteq> 0, st1))"

definition setAlertPolarity :: "bus_env \<Rightarrow> bool \<Rightarrow> state \<Rightarrow> bool \<times> state" where
  "setAlertPolarity env polarity st =
     (let (reg, st1) = readMaskEnableRegister env st
      in writeMaskEnableRegister env (set_field apol (of_bool polarity) reg) st1)"

definition isAlertLatchSet :: "bus_env \<Rightarrow> state \<Rightarrow> bool \<times> state" where
  "isAlertLatchSet env st =
     (let (reg, st1) = readMaskEnableRegister env st in (get_field len reg \<noteq> 0, st1))"

definition setAlertLatch :: "bus_env \<Rightarrow> bool \<Rightarrow> state \<Rightarrow> bool \<times> state" where
  "setAlertLatch env latch st =
     (let (reg, st1) = readMaskEnableRegister env st
      in writeMaskEnableRegister env (set_field len (of_bool latch) reg) st1)"

definition getMode :: "bus_env \<Rightarrow> state \<Rightarrow> Mode \<times> state" where
  "getMode env st =
     (let (reg, st1) = readConfigurationRegister env st in (Mode_of (get_field mode reg), st1))"

definition setMode :: "bus_env \<Rightarrow> Mode \<Rightarrow> state \<Rightarrow> state" where
  "setMode env m st =
     (let (reg, st1) = readConfigurationRegister env st
      in snd (writeConfigurationRegister env (set_field mode (Mode_val m) reg) st1))"

definition isConversionRready :: "bus_env \<Rightarrow> state \<Rightarrow> bool \<times> state" where
  "isConversionRready env st =
     (let (reg, st1) = readMaskEnableRegister env st in (get_field cvrf reg \<noteq> 0, st1))"

definition setConversionReadyAlert :: "bus_env \<Rightarrow> bool \<Rightarrow> state \<Rightarrow> bool \<times> state" where
  "setConversionReadyAlert env s st =
     (let (reg, st1) = readMaskEnableRegister env st
      in writeMaskEnableRegister env (set_field cnvr (of_bool s) reg) st1)"

definition getCurrentConversionTime :: "bus_env \<Rightarrow> state \<Rightarrow> ConversionTime \<times> state" where
  "getCurrentConversionTime env st =
     (let (reg, st1) = readConfigurationRegister env st
      in (ConversionTime_of (get_field ishct reg), st1))"

definition setCurrentConversionTime :: "bus_env \<Rightarrow> ConversionTime \<Rightarrow> state \<Rightarrow> bool \<times> state" where
  "setCurrentConversionTime env t st =
     (let (reg, st1) = readConfigurationRegister env st
      in writeConfigurationRegister env (set_field ishct (ConversionTime_val t) reg) st1)"

definition getVoltageConversionTime :: "bus_env \<Rightarrow> state \<Rightarrow> ConversionTime \<times> state" where
  "getVoltageConversionTime env st =
     (let (reg, st1) = readConfigurationRegister env st
      in (ConversionTime_of (get_field vbusct reg), st1))"

definition setVoltageConversionTime :: "bus_env \<Rightarrow> ConversionTime \<Rightarrow> state \<Rightarrow> bool \<times> state" where
  "setVoltageConversionTime env t st =
     (let (reg, st1) = readConfigurationRegister env st
      in writeConfigurationRegister env (set_field vbusct (ConversionTime_val t) reg) st1)"

definition getAveragingCount :: "bus_env \<Rightarrow> state \<Rightarrow> AveragingCount \<times> state" where
  "getAveragingCount env st =
     (let (reg, st1) = readConfigurationRegister env st
      in (AveragingCount_of (get_field avg reg), st1))"

definition setAveragingCount :: "bus_env \<Rightarrow> AveragingCount \<Rightarrow> state \<Rightarrow> bool \<times> state" where
  "setAveragingCount env c st =
     (let (reg, st1) = readConfigurationRegister env st
      in writeConfigurationRegister env (set_field avg (AveragingCount_val c) reg) st1)"

text \<open>
  \<open>readManufactuerId\<close> builds a \<open>String\<close> from a NUL-terminated buffer of the two bytes
  of the register: the string ends before the first zero byte.
\<close>

definition readManufactuerId :: "bus_env \<Rightarrow> state \<Rightarrow> u8 list \<times> state" where
  "readManufactuerId env st =
     (let (v, st1) = readRegister env INA260_MANUFACTURER_ID_REGISTER st;
          c0 = (ucast (drop_bit 8 (ucast v :: c_int) AND 0xFF) :: u8);
          c1 = (ucast ((ucast v :: c_int) AND 0xFF) :: u8)
      in (takeWhile (\<lambda>c. c \<noteq> 0) [c0, c1], st1))"

definition readDieId :: "bus_env \<Rightarrow> state \<Rightarrow> u16 \<times> state" where
  "readDieId env st = readRegister env INA260_DIE_ID_REGISTER st"

text \<open>
  \<open>findDevices\<close> indexes the 16-element array \<open>devices\<close> with \<open>deviceCount\<close>. Reading an
  indeterminate \<open>deviceCount\<close> and storing outside the array are undefined behaviour in
  C++; the model stops with an error there. \<open>deviceCount\<close> is only incremented below 16,
  so the increment cannot overflow.
\<close>

datatype error = IndeterminateValue | OutOfBounds

function findDevices_loop :: "bus_env \<Rightarrow> u8 \<Rightarrow> state \<Rightarrow> error + state" where
  "findDevices_loop env a st =
     (if a < 127 then
        (let st1 = Wire_beginTransmission a st;
             (rc, st2) = Wire_endTransmission env st1
         in if rc = 0 then
              (case deviceCount st2 of
                 None \<Rightarrow> Inl IndeterminateValue
               | Some dc \<Rightarrow>
                   if 0 \<le> dc \<and> dc < 16 then
                     findDevices_loop env (a + 1)
                       (st2\<lparr>devices := (devices st2)[nat dc := a], deviceCount := Some (dc + 1)\<rparr>)
                   else Inl OutOfBounds)
            else findDevices_loop env (a + 1) st2)
      else Inr st)"
  by pat_completeness auto
termination
proof (relation "measure (\<lambda>(env, a, st). 127 - unat a)")
  show "wf (measure (\<lambda>(env, a, st). 127 - unat a))" by simp
next
  fix env :: bus_env and a :: u8 and st x xa y x2 :: state and rc :: u8 and dc :: int
  assume "a < 127"
  then have "unat a < 127" by (simp add: word_less_nat_alt)
  then have "unat (a + 1) = unat a + 1" by (simp add: unat_word_ariths)
  with \<open>unat a < 127\<close>
  show "((env, a + 1, xa\<lparr>devices := (devices xa)[nat dc := a], deviceCount := Some (dc + 1)\<rparr>), env, a, st)
          \<in> measure (\<lambda>(env, a, st). 127 - unat a)"
    by simp
next
  fix env :: bus_env and a :: u8 and st xa :: state
  assume "a < 127"
  then have "unat a < 127" by (simp add: word_less_nat_alt)
  then have "unat (a + 1) = unat a + 1" by (simp add: unat_word_ariths)
  with \<open>unat a < 127\<close>
  show "((env, a + 1, xa), env, a, st) \<in> measure (\<lambda>(env, a, st). 127 - unat a)"
    by simp
qed

definition findDevices :: "bus_env \<Rightarrow> state \<Rightarrow> error + state" where
  "findDevices env st = findDevices_loop env 1 st"

section \<open>The public interface as one dispatcher\<close>

text \<open>
  One constructor per public method of \<open>class INA260\<close>, with its arguments, and one
  result constructor per return type. \<open>exec\<close> runs a call; only \<open>findDevices\<close> can stop
  with an error.
\<close>

datatype call =
  Begin | Reset | FindDevices | SetAddress u8 | GetAddress
| ReadRegister u8 | WriteRegister u8 u16
| ReadConfigurationRegister | WriteConfigurationRegister u16
| ReadCurrent | ReadBusVoltage | ReadPower
| ReadMaskEnableRegister | WriteMaskEnableRegister u16
| ReadAlertLimitRegister | WriteAlertLimitRegister u16
| EnableOverCurrentLimitAlert u16 | EnableUnderCurrentLimitAlert u16
| EnableBusOvertLimitAlert u16 | EnableBusUnderLimitAlert u16
| EnableOverPowerLimitAlert u16
| SetCurrentLimit u16 | SetBusVoltageLimit u16 | SetPowerLimit u16
| IsMathOverFlow | IsAlert | ClearAlert
| IsAlertPolaritySet | SetAlertPolarity bool
| IsAlertLatchSet | SetAlertLatch bool
| GetMode | SetMode Mode
| IsConversionRready | SetConversionReadyAlert bool
| GetCurrentConversionTime | SetCurrentConversionTime ConversionTime
| GetVoltageConversionTime | SetVoltageConversionTime ConversionTime
| GetAveragingCount | SetAveragingCount AveragingCount
| ReadManufactuerId | ReadDieId

datatype retval =
  RVoid | RBool bool | RByte u8 | RWord u16 | RFloat rat
| RMode Mode | RTime ConversionTime | RAvg AveragingCount | RString "u8 list"

definition ret :: "('a \<Rightarrow> retval) \<Rightarrow> 'a \<times> state \<Rightarrow> error + retval \<times> state" where
  "ret k p = Inr (k (fst p), snd p)"

fun exec :: "bus_env \<Rightarrow> call \<Rightarrow> state \<Rightarrow> error + retval \<times> state" where
  "exec env Begin st = ret RBool (INA260_begin env st)"
| "exec env Reset st = ret RBool (reset env st)"
| "exec env FindDevices st =
     (case findDevices env st of Inl e \<Rightarrow> Inl e | Inr st1 \<Rightarrow> Inr (RVoid, st1))"
| "exec env (SetAddress a) st = Inr (RVoid, setAddress a st)"
| "exec env GetAddress st = Inr (RByte (getAddress st), st)"
| "exec env (ReadRegister r) st = ret RWord (readRegister env r st)"
| "exec env (WriteRegister r v) st = ret RBool (writeRegister env r v st)"
| "exec env ReadConfigurationRegister st = ret RWord (readConfigurationRegister env st)"
| "exec env (WriteConfigurationRegister v) st = ret RBool (writeConfigurationRegister env v st)"
| "exec env ReadCurrent st = ret RFloat (readCurrent env st)"
| "exec env ReadBusVoltage st = ret RFloat (readBusVoltage env st)"
| "exec env ReadPower st = ret RFloat (readPower env st)"
| "exec env ReadMaskEnableRegister st = ret RWord (readMaskEnableRegister env st)"
| "exec env (WriteMaskEnableRegister v) st = ret RBool (writeMaskEnableRegister env v st)"
| "exec env ReadAlertLimitRegister st = ret RFloat (readAlertLimitRegister env st)"
| "exec env (WriteAlertLimitRegister v) st = ret RBool (writeAlertLimitRegister env v st)"
| "exec env (EnableOverCurrentLimitAlert v) st = ret RBool (enableOverCurrentLimitAlert env v st)"
| "exec env (EnableUnderCurrentLimitAlert v) st = ret RBool (enableUnderCurrentLimitAlert env v st)"
| "exec env (EnableBusOvertLimitAlert v) st = ret RBool (enableBusOvertLimitAlert env v st)"
| "exec env (EnableBusUnderLimitAlert v) st = ret RBool (enableBusUnderLimitAlert env v st)"
| "exec env (EnableOverPowerLimitAlert v) st = ret RBool (enableOverPowerLimitAlert env v st)"
| "exec env (SetCurrentLimit v) st = ret RBool (setCurrentLimit env v st)"
| "exec env (SetBusVoltageLimit v) st = ret RBool (setBusVoltageLimit env v st)"
| "exec env (SetPowerLimit v) st = ret RBool (setPowerLimit env v st)"
| "exec env IsMathOverFlow st = ret RBool (isMathOverFlow env st)"
| "exec env IsAlert st = ret RBool (isAlert env st)"
| "exec env ClearAlert st = Inr (RVoid, clearAlert env st)"
| "exec env IsAlertPolaritySet st = ret RBool (isAlertPolaritySet env st)"
| "exec env (SetAlertPolarity b) st = ret RBool (setAlertPolarity env b st)"
| "exec env IsAlertLatchSet st = ret RBool (isAlertLatchSet env st)"
| "exec env (SetAlertLatch b) st = ret RBool (setAlertLatch env b st)"
| "exec env GetMode st = ret RMode (getMode env st)"
| "exec env (SetMode m) st = Inr (RVoid, setMode env m st)"
| "exec env IsConversionRready st = ret RBool (isConversionRready env st)"
| "exec env (SetConversionReadyAlert b) st = ret RBool (setConversionReadyAlert env b st)"
| "exec env GetCurrentConversionTime st = ret RTime (getCurrentConversionTime env st)"
| "exec env (SetCurrentConversionTime t) st = ret RBool (setCurrentConversionTime env t st)"
| "exec env GetVoltageConversionTime st = ret RTime (getVoltageConversionTime env st)"
| "exec env (SetVoltageConversionTime t) st = ret RBool (setVoltageConversionTime env t st)"
| "exec env GetAveragingCount st = ret RAvg (getAveragingCount env st)"
| "exec env (SetAveragingCount c) st = ret RBool (setAveragingCount env c st)"
| "exec env ReadManufactuerId st = ret RString (readManufactuerId env st)"
| "exec env ReadDieId st = ret RWord (readDieId env st)"

section \<open>What a call does on the bus\<close>

text \<open>
  \<open>reg_bytes\<close> are the bytes the bus delivers when register \<open>reg\<close> of the device at
  \<open>a\<close> is read after the transactions \<open>tr\<close>; \<open>reg_value\<close> is the 16-bit value they
  carry, most significant byte first, when there are two of them. \<open>read_events\<close> and
  \<open>write_events\<close> are the transactions of one register read and one register write.
\<close>

definition reg_bytes :: "bus_env \<Rightarrow> bus_event list \<Rightarrow> u8 \<Rightarrow> u8 \<Rightarrow> u8 list" where
  "reg_bytes env tr a reg = take 2 (reply env (tr @ [Transmission a [reg]]) a 2)"

definition reg_value :: "bus_env \<Rightarrow> bus_event list \<Rightarrow> u8 \<Rightarrow> u8 \<Rightarrow> u16" where
  "reg_value env tr a reg =
     (case reg_bytes env tr a reg of [m, l] \<Rightarrow> word_cat m l | _ \<Rightarrow> 0)"

definition read_events :: "u8 \<Rightarrow> u8 \<Rightarrow> bus_event list" where
  "read_events a reg = [Transmission a [reg], Request a 2]"

definition write_events :: "u8 \<Rightarrow> u8 \<Rightarrow> u16 \<Rightarrow> bus_event list" where
  "write_events a reg v = [Transmission a [reg, ucast (drop_bit 8 v), ucast v]]"

text \<open>
  The five limit-selection flags of a Mask/Enable value, in the order \<open>ocl\<close>, \<open>ucl\<close>,
  \<open>bol\<close>, \<open>bul\<close>, \<open>pol\<close> (bits 15 down to 11).
\<close>

definition limit_flags :: "u16 \<Rightarrow> bool \<times> bool \<times> bool \<times> bool \<times> bool" where
  "limit_flags m = (bit m 15, bit m 14, bit m 13, bit m 12, bit m 11)"

text \<open>
  A register read shows on the bus as a request, a register write as a transmission of
  three bytes (the register pointer and the two bytes of the value).
\<close>

fun is_register_read :: "bus_event \<Rightarrow> bool" where
  "is_register_read (Request a n) = True"
| "is_register_read (Transmission a d) = False"

fun is_register_write :: "bus_event \<Rightarrow> bool" where
  "is_register_write (Transmission a d) = (length d = 3)"
| "is_register_write (Request a n) = False"

definition register_reads :: "bus_event list \<Rightarrow> nat" where
  "register_reads evs = length (filter is_register_read evs)"

definition register_writes :: "bus_event list \<Rightarrow> nat" where
  "register_writes evs = length (filter is_register_write evs)"

text \<open>
  Groups of public methods: the five alert-enable methods, the methods that return what
  they read from the device, the seven single-field setters, and the methods that write
  one register without reading. \<open>bus_cost\<close> gives the number of register reads and of
  register writes of a call.
\<close>

fun is_enable :: "call \<Rightarrow> bool" where
  "is_enable (EnableOverCurrentLimitAlert v) = True"
| "is_enable (EnableUnderCurrentLimitAlert v) = True"
| "is_enable (EnableBusOvertLimitAlert v) = True"
| "is_enable (EnableBusUnderLimitAlert v) = True"
| "is_enable (EnableOverPowerLimitAlert v) = True"
| "is_enable c = False"

fun is_read_accessor :: "call \<Rightarrow> bool" where
  "is_read_accessor (ReadRegister r) = True"
| "is_read_accessor ReadConfigurationRegister = True"
| "is_read_accessor ReadCurrent = True"
| "is_read_accessor ReadBusVoltage = True"
| "is_read_accessor ReadPower = True"
| "is_read_accessor ReadMaskEnableRegister = True"
| "is_read_accessor ReadAlertLimitRegister = True"
| "is_read_accessor IsMathOverFlow = True"
| "is_read_accessor IsAlert = True"
| "is_read_accessor IsAlertPolaritySet = True"
| "is_read_accessor IsAlertLatchSet = True"
| "is_read_accessor GetMode = True"
| "is_read_accessor IsConversionRready = True"
| "is_read_accessor GetCurrentConversionTime = True"
| "is_read_accessor GetVoltageConversionTime = True"
| "is_read_accessor GetAveragingCount = True"
| "is_read_accessor ReadManufactuerId = True"
| "is_read_accessor ReadDieId = True"
| "is_read_accessor c = False"

fun is_single_field_setter :: "call \<Rightarrow> bool" where
  "is_single_field_setter (SetAlertPolarity b) = True"
| "is_single_field_setter (SetAlertLatch b) = True"
| "is_single_field_setter (SetMode m) = True"
| "is_single_field_setter (SetConversionReadyAlert b) = True"
| "is_single_field_setter (SetCurrentConversionTime t) = True"
| "is_single_field_setter (SetVoltageConversionTime t) = True"
| "is_single_field_setter (SetAveragingCount c) = True"
| "is_single_field_setter c = False"

fun is_plain_write :: "call \<Rightarrow> bool" where
  "is_plain_write Begin = True"
| "is_plain_write Reset = True"
| "is_plain_write (WriteRegister r v) = True"
| "is_plain_write (WriteConfigurationRegister v) = True"
| "is_plain_write (WriteMaskEnableRegister v) = True"
| "is_plain_write (WriteAlertLimitRegister v) = True"
| "is_plain_write (SetCurrentLimit v) = True"
| "is_plain_write (SetBusVoltageLimit v) = True"
| "is_plain_write (SetPowerLimit v) = True"
| "is_plain_write c = False"

definition bus_cost :: "call \<Rightarrow> nat \<times> nat" where
  "bus_cost c =
     (if c = ReadAlertLimitRegister then (2, 0)
      else if is_enable c then (1, 2)
      else if is_single_field_setter c then (1, 1)
      else if is_plain_write c then (0, 1)
      else if is_read_accessor c \<or> c = ClearAlert then (1, 0)
      else (0, 0))"

text \<open>
  \<open>result\<close> is what the caller gets back. \<open>zero_fill env\<close> is the bus \<open>env\<close> where every
  read that delivers fewer bytes than requested delivers zero bytes of the requested
  number instead: a device whose registers genuinely read as zero.
\<close>

definition result :: "error + retval \<times> state \<Rightarrow> retval option" where
  "result x = (case x of Inl e \<Rightarrow> None | Inr p \<Rightarrow> Some (fst p))"

definition zero_fill :: "bus_env \<Rightarrow> bus_env" where
  "zero_fill env =
     env\<lparr>reply := (\<lambda>tr a n. if length (take n (reply env tr a n)) < n then replicate n 0
                           else reply env tr a n)\<rparr>"

text \<open>
  Concrete buses and a concrete state: one device at address 0x40 that answers every
  read with the bytes 0x12 0x34 (\<open>env0\<close>) or with the single byte 0x12 (\<open>env_short\<close>),
  on a core with a 32-bit \<open>int\<close>. \<open>env_avr\<close> is a core with a 16-bit \<open>int\<close> and a
  device at 0x40 whose Mask/Enable register (register 6) reads 0x0800, the flag \<open>pol\<close>
  alone, and whose other registers read 0x199A, which is 6554.
\<close>

definition env_avr :: bus_env where
  "env_avr =
     \<lparr>int_width = Int16,
      ack = (\<lambda>tr a d. if a = 0x40 then 0 else 2),
      reply = (\<lambda>tr a n. case rev tr of
                 Transmission b [r] # evs \<Rightarrow> if r = 6 then [0x08, 0x00] else [0x19, 0x9A]
               | _ \<Rightarrow> [])\<rparr>"

definition env0 :: bus_env where
  "env0 = \<lparr>int_width = Int32, ack = (\<lambda>tr a d. if a = 0x40 then 0 else 2), reply = (\<lambda>tr a n. [0x12, 0x34])\<rparr>"

definition env_short :: bus_env where
  "env_short = \<lparr>int_width = Int32, ack = (\<lambda>tr a d. if a = 0x40 then 0 else 2), reply = (\<lambda>tr a n. [0x12])\<rparr>"

definition st0 :: state where
  "st0 = \<lparr>address = 0x40, devices = replicate 16 0, deviceCount = Some 0,
          wireInitialized = False, txAddress = 0, txBuffer = [], rxBuffer = [], trace = []\<rparr>"

text \<open>
  Device discovery. \<open>scan_range\<close> are the addresses the loop of \<open>findDevices\<close> visits,
  in its order, and \<open>scan_from a\<close> those it still visits when its counter is \<open>a\<close>.
  \<open>acked_in env tr as\<close> are the addresses among \<open>as\<close> whose zero-length transmission is
  acknowledged (status 0) when \<open>as\<close> are probed in order after the transactions \<open>tr\<close>;
  \<open>acknowledging env st\<close> are the addresses that acknowledge during one \<open>findDevices\<close>.
\<close>

definition scan_range :: "u8 list" where
  "scan_range = map of_nat [1..<127]"

fun acked_in :: "bus_env \<Rightarrow> bus_event list \<Rightarrow> u8 list \<Rightarrow> u8 list" where
  "acked_in env tr [] = []"
| "acked_in env tr (a # as) =
     (if ack env tr a [] = 0 then [a] else []) @ acked_in env (tr @ [Transmission a []]) as"

definition acknowledging :: "bus_env \<Rightarrow> state \<Rightarrow> u8 list" where
  "acknowledging env st = acked_in env (trace st) scan_range"

definition scan_from :: "u8 \<Rightarrow> u8 list" where
  "scan_from a = map of_nat [unat a..<127]"

text \<open>
  A bus on which only the addresses 0 and 127 would acknowledge, and the state
  \<open>findDevices\<close> leaves on it when started in \<open>st0\<close>.
\<close>

definition env_edge :: bus_env where
  "env_edge = \<lparr>int_width = Int32, ack = (\<lambda>tr a d. if a = 0 \<or> a = 127 then 0 else 2), reply = (\<lambda>tr a n. [])\<rparr>"

definition st_scanned :: state where
  "st_scanned = st0\<lparr>txAddress := 126, txBuffer := [],
                    trace := map (\<lambda>a. Transmission a []) scan_range\<rparr>"


section \<open>Auxiliary facts\<close>

lemmas register_defs =
  INA260_CONFIG_REGISTER_def INA260_CURRENT_REGISTER_def INA260_VOLTAGE_REGISTER_def
  INA260_POWER_REGISTER_def INA260_MASK_ENABLE_REGISTER_def INA260_ALERT_LIMIT_REGISTER_def
  INA260_MANUFACTURER_ID_REGISTER_def INA260_DIE_ID_REGISTER_def

lemmas field_defs =
  mode_def ishct_def vbusct_def avg_def rst_def len_def apol_def ovf_def cvrf_def aff_def
  cnvr_def pol_def bul_def bol_def ucl_def ocl_def

lemma uint_u16_bound: "uint (x::u16) < 65536"
  using uint_bounded [of x] by simp

lemma uint_ucast_u16: "uint (ucast (x::u16) :: c_int) = uint x"
  by (simp add: uint_up_ucast is_up)

lemma sint_ucast_u16: "sint (ucast (x::u16) :: c_int) = uint x"
proof -
  have "0 \<le> uint x" by simp
  then have lo: "- 2147483648 \<le> uint x" by linarith
  have hi: "uint x < 2147483648" using uint_u16_bound [of x] by linarith
  have "signed_take_bit 31 (uint x) = uint x"
    using lo hi by (subst signed_take_bit_int_eq_self_iff) simp
  then show ?thesis by (simp add: sint_uint uint_ucast_u16)
qed

lemma sint_mul10: "sint ((ucast (raw::u16) :: c_int) * 10) = uint raw * 10"
proof -
  have b: "0 \<le> uint raw" "uint raw < 65536" using uint_u16_bound [of raw] by simp_all
  then have m: "(uint raw * 10) mod 2 ^ 32 = uint raw * 10"
    by (simp add: mod_pos_pos_trivial)
  from b have lo: "- 2147483648 \<le> uint raw * 10" by linarith
  from b have hi: "uint raw * 10 < 2147483648" by linarith
  have "signed_take_bit 31 (uint raw * 10) = uint raw * 10"
    by (subst signed_take_bit_int_eq_self_iff) (use lo hi in simp)
  with m show ?thesis
    by (simp add: sint_uint uint_word_ariths uint_ucast_u16)
qed

lemma ff_mask: "(0xFF :: c_int) = mask 8"
  by (simp add: mask_eq_exp_minus_1)

lemma assemble_bytes: "(ucast (push_bit 8 (ucast (ucast (ucast (m::u8) :: c_int) :: u16) :: c_int) OR (ucast (ucast (ucast (l::u8) :: c_int) :: u16) :: c_int)) :: u16) = word_cat m l"
  by (rule bit_word_eqI) (auto simp: bit_simps dest: bit_imp_le_length)

lemma high_byte: "(ucast (drop_bit 8 (ucast (v::u16) :: c_int) AND 0xFF) :: u8) = ucast (drop_bit 8 v)"
  unfolding ff_mask by (rule bit_word_eqI) (auto simp: bit_simps)
lemma low_byte: "(ucast ((ucast (v::u16) :: c_int) AND 0xFF) :: u8) = ucast v"
  unfolding ff_mask  by (rule bit_word_eqI) (auto simp: bit_simps)
lemma word_cat_bytes: "word_cat (ucast (drop_bit 8 v) :: u8) (ucast (v::u16) :: u8) = v"
  by (rule bit_word_eqI) (auto simp: bit_simps)

lemma readRegister_eq:
  "readRegister env reg st =
     (reg_value env (trace st) (address st) reg,
      st\<lparr>txAddress := address st, txBuffer := [],
         rxBuffer := (if length (reg_bytes env (trace st) (address st) reg) = 2 then []
                      else reg_bytes env (trace st) (address st) reg),
         trace := trace st @ read_events (address st) reg\<rparr>)"
proof -
  define bs where "bs = reg_bytes env (trace st) (address st) reg"
  have rb: "take 2 (reply env (trace st @ [Transmission (address st) [reg]]) (address st) 2) = bs"
    by (simp add: bs_def reg_bytes_def)
  have len: "length bs \<le> 2" by (simp add: bs_def reg_bytes_def)
  have rl: "min (length (reply env (trace st @ [Transmission (address st) [reg]]) (address st) 2)) 2
              = length bs"
    by (simp add: bs_def reg_bytes_def)
  have unf: "readRegister env reg st =
    (let st4 = st\<lparr>txAddress := address st, txBuffer := [], rxBuffer := bs,
                   trace := trace st @ read_events (address st) reg\<rparr>
     in if length bs = 2 then
           (let (m, st5) = Wire_read st4;
                msb = (ucast m :: u16);
                (l, st6) = Wire_read st5;
                lsb = (ucast l :: u16)
            in (ucast (push_bit 8 (ucast msb :: c_int) OR (ucast lsb :: c_int)), st6))
         else (0, st4))"
    by (simp add: readRegister_def Wire_beginTransmission_def Wire_write_def
        Wire_endTransmission_def Wire_requestFrom_def Wire_available_def
        read_events_def rb rl Let_def)
  consider "bs = []" | m where "bs = [m]" | m l where "bs = [m, l]"
    using len by (cases bs rule: list.exhaust; simp; case_tac x22; simp) 
  then show ?thesis
  proof cases
    case 1
    then show ?thesis unfolding unf by (simp add: reg_value_def bs_def [symmetric])
  next
    case 2
    then show ?thesis unfolding unf by (simp add: reg_value_def bs_def [symmetric])
  next
    case 3
    then show ?thesis unfolding unf
      by (simp add: reg_value_def bs_def [symmetric] Wire_read_def assemble_bytes)
  qed
qed

lemma writeRegister_eq:
  "writeRegister env reg v st =
     (ack env (trace st) (address st) [reg, ucast (drop_bit 8 v), ucast v] = 0,
      st\<lparr>txAddress := address st, txBuffer := [],
         trace := trace st @ write_events (address st) reg v\<rparr>)"
  by (simp add: writeRegister_def Wire_beginTransmission_def Wire_write_def
        Wire_endTransmission_def write_events_def high_byte low_byte)

lemma u16_times_10_eq:
  "u16_times_10 w raw = (case w of Int16 \<Rightarrow> (uint raw * 10) mod 65536 | Int32 \<Rightarrow> uint raw * 10)"
  by (cases w) (simp_all add: sint_mul10 uint_word_ariths)

lemma int_width_zero_fill: "int_width (zero_fill env) = int_width env"
  by (simp add: zero_fill_def)

lemma scaled_values_exact:
  "\<exists>m::nat. m < 2 ^ 24 \<and> double_of_u16 x * 1.25 = of_nat m / 4"
  "\<exists>m::nat. m < 2 ^ 24 \<and> double_of_int (u16_times_10 Int32 x) = of_nat m"
proof -
  have b: "0 \<le> uint x" "uint x < 65536" using uint_u16_bound [of x] by simp_all
  have "nat (uint x * 5) < 2 ^ 24 \<and> double_of_u16 x * 1.25 = of_nat (nat (uint x * 5)) / 4"
    using b by (simp add: double_of_u16_def sint_ucast_u16)
  then show "\<exists>m::nat. m < 2 ^ 24 \<and> double_of_u16 x * 1.25 = of_nat m / 4" by blast
  have "nat (uint x * 10) < 2 ^ 24 \<and> double_of_int (u16_times_10 Int32 x) = of_nat (nat (uint x * 10))"
    using b by (simp add: double_of_int_def sint_mul10)
  then show "\<exists>m::nat. m < 2 ^ 24 \<and> double_of_int (u16_times_10 Int32 x) = of_nat m" by blast
qed

lemma pol_is_bit11: "(get_field pol r = 1) = bit r 11"
proof -
  have "get_field pol r = of_bool (bit r 11)"
    unfolding get_field_def pol_def
    by (rule bit_word_eqI) (auto simp: bit_simps simp flip: bit_iff_odd_drop_bit)
  then show ?thesis by simp
qed

lemma div_1_25: "u16_of_double (double_of_u16 n / 1.25) = word_of_nat (unat n * 4 div 5)"
proof -
  have "double_of_u16 n / 1.25 = of_int (uint n * 4) / of_int 5"
    by (simp add: double_of_u16_def sint_ucast_u16)
  then have "\<lfloor>double_of_u16 n / 1.25\<rfloor> = uint n * 4 div 5"
    by (simp only: floor_divide_of_int_eq)
  moreover have "0 \<le> double_of_u16 n / 1.25"
  proof -
    have "0 \<le> uint n" by simp
    then have "(0::rat) \<le> of_int (uint n)" by (simp only: of_int_0_le_iff)
    then show ?thesis by (simp add: double_of_u16_def sint_ucast_u16)
  qed
  moreover have "uint n * 4 div 5 = int (unat n * 4 div 5)"
    by (simp add: zdiv_int)
  ultimately show ?thesis
    by (simp add: u16_of_double_def)
qed

lemma div_10: "(ucast (int_div (ucast (n::u16)) 10) :: u16) = word_of_nat (unat n div 10)"
proof -
  have "sint (ucast n :: c_int) sdiv sint (10 :: c_int) = uint n div 10"
    by (simp add: sint_ucast_u16 signed_divide_int_def sgn_if div_abs_eq)
  moreover have "uint n div 10 = int (unat n div 10)" by (simp add: zdiv_int)
  ultimately have "int_div (ucast n) 10 = (word_of_nat (unat n div 10) :: c_int)"
    by (simp add: int_div_def)
  moreover have "(ucast (word_of_nat (unat n div 10) :: c_int) :: u16) = word_of_nat (unat n div 10)"
    by (rule bit_word_eqI) (auto simp: bit_simps)
  ultimately show ?thesis by simp
qed

lemma bit_set_field:
  "bit (set_field f v raw) n \<longleftrightarrow>
     (if fst f \<le> n \<and> n < fst f + snd f then n < 16 \<and> bit v (n - fst f) else bit raw n)"
  unfolding set_field_def field_mask_def
  by (auto simp: bit_simps dest: bit_imp_le_length)

lemma bit_get_field:
  "bit (get_field f raw) n \<longleftrightarrow> n < snd f \<and> bit raw (fst f + n)"
  unfolding get_field_def
  by (auto simp: bit_simps ac_simps dest: bit_imp_le_length)

lemma limit_flags_set:
  "limit_flags (set_field pol p (set_field bul b (set_field bol c (set_field ucl d (set_field ocl e r)))))
     = (bit e 0, bit d 0, bit c 0, bit b 0, bit p 0)"
  by (simp add: limit_flags_def bit_set_field field_defs)

lemma limit_flags_fields:
  "limit_flags m =
     (get_field ocl m = 1, get_field ucl m = 1, get_field bol m = 1, get_field bul m = 1,
      get_field pol m = 1)"
proof -
  have "get_field (k, 1) m = of_bool (bit m k)" for k
    unfolding get_field_def
    by (rule bit_word_eqI) (auto simp: bit_simps simp flip: bit_iff_odd_drop_bit)
  then show ?thesis by (simp add: limit_flags_def field_defs)
qed

lemma enable_trace:
  "trace (snd (writeMaskEnableRegister env m
           (snd (writeAlertLimitRegister env v (snd (readMaskEnableRegister env st)))))) =
   trace (snd (writeAlertLimitRegister env v (snd (readMaskEnableRegister env st)))) @
     write_events (address st) INA260_MASK_ENABLE_REGISTER m"
  by (simp add: writeMaskEnableRegister_def writeAlertLimitRegister_def
      readMaskEnableRegister_def readRegister_eq writeRegister_eq)

lemma field_mask_values:
  "field_mask mode = 0x0007" "field_mask ishct = 0x0038" "field_mask vbusct = 0x01C0"
  "field_mask avg = 0x0E00" "field_mask apol = 0x0002" "field_mask len = 0x0001"
  "field_mask cnvr = 0x0400"
  by (simp_all add: field_mask_def field_defs mask_eq_exp_minus_1 push_bit_eq_mult)

lemma bit_field_mask:
  "bit (field_mask f) n \<longleftrightarrow> fst f \<le> n \<and> n < fst f + snd f \<and> n < 16"
  unfolding field_mask_def by (auto simp: bit_simps)

lemma set_field_frame: "set_field f v r AND NOT (field_mask f) = r AND NOT (field_mask f)"
  by (rule bit_word_eqI) (auto simp: bit_simps bit_set_field bit_field_mask)

lemma get_set_field:
  "fst f + snd f \<le> 16 \<Longrightarrow> get_field f (set_field f v r) = take_bit (snd f) v"
  by (rule bit_word_eqI) (auto simp: bit_simps bit_set_field bit_get_field)

lemma Mode_val_fits: "take_bit 3 (Mode_val x) = Mode_val x"
  by (cases x) simp_all

lemma ConversionTime_val_fits: "take_bit 3 (ConversionTime_val t) = ConversionTime_val t"
  by (cases t) simp_all

lemma AveragingCount_val_fits: "take_bit 3 (AveragingCount_val c) = AveragingCount_val c"
  by (cases c) simp_all

lemma of_bool_fits: "take_bit 1 (of_bool b :: u16) = of_bool b"
  by (cases b) simp_all

lemmas enum_vals_fit =
  Mode_val_fits ConversionTime_val_fits AveragingCount_val_fits of_bool_fits

lemma set_field_frames:
  "set_field mode v r AND NOT 0x0007 = r AND NOT 0x0007"
  "set_field ishct v r AND NOT 0x0038 = r AND NOT 0x0038"
  "set_field vbusct v r AND NOT 0x01C0 = r AND NOT 0x01C0"
  "set_field avg v r AND NOT 0x0E00 = r AND NOT 0x0E00"
  "set_field apol v r AND NOT 0x0002 = r AND NOT 0x0002"
  "set_field len v r AND NOT 0x0001 = r AND NOT 0x0001"
  "set_field cnvr v r AND NOT 0x0400 = r AND NOT 0x0400"
  by (rule set_field_frame [of mode, unfolded field_mask_values]
      set_field_frame [of ishct, unfolded field_mask_values]
      set_field_frame [of vbusct, unfolded field_mask_values]
      set_field_frame [of avg, unfolded field_mask_values]
      set_field_frame [of apol, unfolded field_mask_values]
      set_field_frame [of len, unfolded field_mask_values]
      set_field_frame [of cnvr, unfolded field_mask_values])+

lemma get_set_fields:
  "get_field mode (set_field mode v r) = take_bit 3 v"
  "get_field ishct (set_field ishct v r) = take_bit 3 v"
  "get_field vbusct (set_field vbusct v r) = take_bit 3 v"
  "get_field avg (set_field avg v r) = take_bit 3 v"
  "get_field apol (set_field apol v r) = take_bit 1 v"
  "get_field len (set_field len v r) = take_bit 1 v"
  "get_field cnvr (set_field cnvr v r) = take_bit 1 v"
  by (simp_all add: get_set_field field_defs)

lemma rmw_trace:
  "trace (snd (writeRegister env reg w (snd (readRegister env reg st)))) =
     trace st @ read_events (address st) reg @ write_events (address st) reg w"
  by (simp add: readRegister_eq writeRegister_eq)

lemmas driver_defs =
  INA260_begin_def reset_def setAddress_def getAddress_def
  readConfigurationRegister_def writeConfigurationRegister_def
  readCurrent_def readBusVoltage_def readPower_def
  readMaskEnableRegister_def writeMaskEnableRegister_def
  readAlertLimitRegister_def writeAlertLimitRegister_def
  enableOverCurrentLimitAlert_def enableUnderCurrentLimitAlert_def
  enableBusOvertLimitAlert_def enableBusUnderLimitAlert_def enableOverPowerLimitAlert_def
  setCurrentLimit_def setBusVoltageLimit_def setPowerLimit_def
  isMathOverFlow_def isAlert_def clearAlert_def isAlertPolaritySet_def setAlertPolarity_def
  isAlertLatchSet_def setAlertLatch_def getMode_def setMode_def isConversionRready_def
  setConversionReadyAlert_def getCurrentConversionTime_def setCurrentConversionTime_def
  getVoltageConversionTime_def setVoltageConversionTime_def getAveragingCount_def
  setAveragingCount_def readManufactuerId_def readDieId_def

lemma counts_simps:
  "register_reads [] = 0" "register_writes [] = 0"
  "register_reads (read_events a reg @ evs) = Suc (register_reads evs)"
  "register_writes (read_events a reg @ evs) = register_writes evs"
  "register_reads (write_events a reg v @ evs) = register_reads evs"
  "register_writes (write_events a reg v @ evs) = Suc (register_writes evs)"
  "register_reads (read_events a reg) = 1"
  "register_writes (read_events a reg) = 0"
  "register_reads (write_events a reg v) = 0"
  "register_writes (write_events a reg v) = 1"
  "length (read_events a reg) = 2" "length (write_events a reg v) = 1"
  by (simp_all add: register_reads_def register_writes_def read_events_def write_events_def)

lemma bus_cost_bounds:
  "fst (bus_cost c) \<le> 2 \<and> snd (bus_cost c) \<le> 2 \<and>
   (fst (bus_cost c) = 2 \<longleftrightarrow> c = ReadAlertLimitRegister) \<and>
   (snd (bus_cost c) = 2 \<longleftrightarrow> is_enable c)"
  by (cases c) (simp_all add: bus_cost_def)

lemma reg_value_zero_fill: "reg_value (zero_fill env) tr a reg = reg_value env tr a reg"
proof -
  define bs where "bs = reply env (tr @ [Transmission a [reg]]) a 2"
  have zf: "reply (zero_fill env) (tr @ [Transmission a [reg]]) a 2 =
              (if length (take 2 bs) < 2 then [0, 0] else bs)"
    unfolding bs_def zero_fill_def by (simp add: numeral_2_eq_2)
  have l: "reg_value (zero_fill env) tr a reg =
             (case take 2 (if length (take 2 bs) < 2 then [0, 0] else bs) of
                [m, l] \<Rightarrow> word_cat m l | _ \<Rightarrow> 0)"
    unfolding reg_value_def reg_bytes_def zf ..
  have r: "reg_value env tr a reg = (case take 2 bs of [m, l] \<Rightarrow> word_cat m l | _ \<Rightarrow> 0)"
    unfolding reg_value_def reg_bytes_def bs_def ..
  consider "bs = []" | m where "bs = [m]" | m l ms where "bs = m # l # ms"
    by (cases bs rule: list.exhaust; simp; case_tac x22; simp)
  then show ?thesis
    unfolding l r by cases simp_all
qed

lemma readRegister_short:
  "length (reg_bytes env (trace st) (address st) reg) < 2 \<Longrightarrow> fst (readRegister env reg st) = 0"
  by (cases "reg_bytes env (trace st) (address st) reg" rule: list.exhaust; simp add: readRegister_eq reg_value_def; case_tac x22; simp)

declare findDevices_loop.simps [simp del]

lemma scan_from_step: "a < 127 \<Longrightarrow> scan_from a = a # scan_from (a + 1)"
proof -
  assume "a < 127"
  then have l: "unat a < 127" by (simp add: word_less_nat_alt)
  then have "unat (a + 1) = Suc (unat a)" by (simp add: unat_word_ariths)
  with l show ?thesis
    by (simp add: scan_from_def upt_conv_Cons)
qed

lemma scan_from_done: "\<not> a < 127 \<Longrightarrow> scan_from a = []"
  by (simp add: scan_from_def word_less_nat_alt)

lemma scan_from_1: "scan_from 1 = scan_range"
  by (simp add: scan_from_def scan_range_def)

lemma findDevices_loop_step:
  "a < 127 \<Longrightarrow> findDevices_loop env a st =
     (if ack env (trace st) a [] = 0 then
        (case deviceCount st of
           None \<Rightarrow> Inl IndeterminateValue
         | Some dc \<Rightarrow>
             if 0 \<le> dc \<and> dc < 16 then
               findDevices_loop env (a + 1)
                 (st\<lparr>txAddress := a, txBuffer := [], trace := trace st @ [Transmission a []],
                     devices := (devices st)[nat dc := a], deviceCount := Some (dc + 1)\<rparr>)
             else Inl OutOfBounds)
      else findDevices_loop env (a + 1)
             (st\<lparr>txAddress := a, txBuffer := [], trace := trace st @ [Transmission a []]\<rparr>))"
  by (subst findDevices_loop.simps)
    (simp add: Wire_beginTransmission_def Wire_endTransmission_def Let_def split: option.split)

lemma findDevices_loop_done: "\<not> a < 127 \<Longrightarrow> findDevices_loop env a st = Inr st"
  by (subst findDevices_loop.simps) simp

lemma store_next:
  assumes "k + Suc (length xs) \<le> length ds"
  shows "take (Suc k) (ds[k := x]) @ xs @ drop (Suc k + length xs) (ds[k := x]) =
         take k ds @ (x # xs) @ drop (k + Suc (length xs)) ds"
proof -
  from assms have "k < length ds" by simp
  then have "take (Suc k) (ds[k := x]) = take k ds @ [x]"
    by (simp add: take_Suc_conv_app_nth)
  then show ?thesis by simp
qed

lemma findDevices_loop_ok:
  "\<lbrakk>deviceCount st = Some dc; 0 \<le> dc;
    dc + int (length (acked_in env (trace st) (scan_from a))) \<le> 16;
    length (devices st) = 16\<rbrakk>
   \<Longrightarrow> \<exists>st'. findDevices_loop env a st = Inr st' \<and>
          trace st' = trace st @ map (\<lambda>b. Transmission b []) (scan_from a) \<and>
          deviceCount st' = Some (dc + int (length (acked_in env (trace st) (scan_from a)))) \<and>
          devices st' = take (nat dc) (devices st) @ acked_in env (trace st) (scan_from a) @
                          drop (nat dc + length (acked_in env (trace st) (scan_from a))) (devices st) \<and>
          address st' = address st"
proof (induction "127 - unat a" arbitrary: a st dc)
  case 0
  then have "\<not> a < 127" by (simp add: word_less_nat_alt)
  with "0.prems" show ?case by (simp add: findDevices_loop_done scan_from_done)
next
  case (Suc n)
  then have lt: "a < 127" by (simp add: word_less_nat_alt)
  then have l: "unat a < 127" by (simp add: word_less_nat_alt)
  then have "unat (a + 1) = Suc (unat a)" by (simp add: unat_word_ariths)
  with Suc.hyps(2) have n: "n = 127 - unat (a + 1)" by simp
  note sf = scan_from_step [OF lt]
  show ?case
  proof (cases "ack env (trace st) a [] = 0")
    case False
    let ?st1 = "st\<lparr>txAddress := a, txBuffer := [], trace := trace st @ [Transmission a []]\<rparr>"
    have eq: "acked_in env (trace st) (scan_from a) = acked_in env (trace ?st1) (scan_from (a + 1))"
      using False by (simp add: sf)
    have "\<exists>st'. findDevices_loop env (a + 1) ?st1 = Inr st' \<and>
          trace st' = trace ?st1 @ map (\<lambda>b. Transmission b []) (scan_from (a + 1)) \<and>
          deviceCount st' = Some (dc + int (length (acked_in env (trace ?st1) (scan_from (a + 1))))) \<and>
          devices st' = take (nat dc) (devices ?st1) @ acked_in env (trace ?st1) (scan_from (a + 1)) @
                          drop (nat dc + length (acked_in env (trace ?st1) (scan_from (a + 1)))) (devices ?st1) \<and>
          address st' = address ?st1"
      using Suc.prems eq by (intro Suc.hyps(1) [OF n]) simp_all
    then show ?thesis
      using False by (simp add: findDevices_loop_step [OF lt] eq) (simp add: sf)
  next
    case True
    let ?st1 = "st\<lparr>txAddress := a, txBuffer := [], trace := trace st @ [Transmission a []],
                   devices := (devices st)[nat dc := a], deviceCount := Some (dc + 1)\<rparr>"
    let ?rest = "acked_in env (trace ?st1) (scan_from (a + 1))"
    have eq: "acked_in env (trace st) (scan_from a) = a # ?rest"
      using True by (simp add: sf)
    from Suc.prems eq have dc16: "dc < 16" by simp
    have ih: "\<exists>st'. findDevices_loop env (a + 1) ?st1 = Inr st' \<and>
          trace st' = trace ?st1 @ map (\<lambda>b. Transmission b []) (scan_from (a + 1)) \<and>
          deviceCount st' = Some (dc + 1 + int (length ?rest)) \<and>
          devices st' = take (nat (dc + 1)) (devices ?st1) @ ?rest @
                          drop (nat (dc + 1) + length ?rest) (devices ?st1) \<and>
          address st' = address ?st1"
      using Suc.prems eq by (intro Suc.hyps(1) [OF n]) simp_all
    have nat1: "nat (dc + 1) = Suc (nat dc)" using Suc.prems by (simp add: nat_add_distrib)
    have st: "take (Suc (nat dc)) ((devices st)[nat dc := a]) @ ?rest @
                drop (Suc (nat dc) + length ?rest) ((devices st)[nat dc := a]) =
              take (nat dc) (devices st) @ (a # ?rest) @ drop (nat dc + Suc (length ?rest)) (devices st)"
      using Suc.prems eq by (intro store_next) simp
    from ih obtain st' where
      r: "findDevices_loop env (a + 1) ?st1 = Inr st'"
         "trace st' = trace ?st1 @ map (\<lambda>b. Transmission b []) (scan_from (a + 1))"
         "deviceCount st' = Some (dc + 1 + int (length ?rest))"
         "devices st' = take (nat (dc + 1)) (devices ?st1) @ ?rest @
                          drop (nat (dc + 1) + length ?rest) (devices ?st1)"
         "address st' = address ?st1"
      by blast
    have "findDevices_loop env a st = Inr st'"
      using True Suc.prems dc16 r(1) by (simp add: findDevices_loop_step [OF lt])
    moreover have "trace st' = trace st @ map (\<lambda>b. Transmission b []) (scan_from a)"
      using r(2) by (simp add: sf)
    moreover have "deviceCount st' = Some (dc + int (length (acked_in env (trace st) (scan_from a))))"
      using r(3) by (simp add: eq)
    moreover have "devices st' = take (nat dc) (devices st) @ acked_in env (trace st) (scan_from a) @
                          drop (nat dc + length (acked_in env (trace st) (scan_from a))) (devices st)"
      using r(4) st unfolding eq nat1 by simp
    moreover have "address st' = address st" using r(5) by simp
    ultimately show ?thesis by blast
  qed
qed


lemma findDevices_loop_fails:
  "\<lbrakk>acked_in env (trace st) (scan_from a) \<noteq> [];
    \<not> (\<exists>dc. deviceCount st = Some dc \<and> 0 \<le> dc \<and>
            dc + int (length (acked_in env (trace st) (scan_from a))) \<le> 16)\<rbrakk>
   \<Longrightarrow> \<exists>e. findDevices_loop env a st = Inl e"
proof (induction "127 - unat a" arbitrary: a st)
  case 0
  then have "\<not> a < 127" by (simp add: word_less_nat_alt)
  with "0.prems" show ?case by (simp add: scan_from_done)
next
  case (Suc n)
  then have lt: "a < 127" by (simp add: word_less_nat_alt)
  then have l: "unat a < 127" by (simp add: word_less_nat_alt)
  then have "unat (a + 1) = Suc (unat a)" by (simp add: unat_word_ariths)
  with Suc.hyps(2) have n: "n = 127 - unat (a + 1)" by simp
  note sf = scan_from_step [OF lt]
  show ?case
  proof (cases "ack env (trace st) a [] = 0")
    case False
    let ?st1 = "st\<lparr>txAddress := a, txBuffer := [], trace := trace st @ [Transmission a []]\<rparr>"
    have eq: "acked_in env (trace st) (scan_from a) = acked_in env (trace ?st1) (scan_from (a + 1))"
      using False by (simp add: sf)
    have "\<exists>e. findDevices_loop env (a + 1) ?st1 = Inl e"
      using Suc.prems unfolding eq by (intro Suc.hyps(1) [OF n]) simp_all
    then show ?thesis
      using False by (simp add: findDevices_loop_step [OF lt])
  next
    case True
    show ?thesis
    proof (cases "deviceCount st")
      case None
      with True show ?thesis by (simp add: findDevices_loop_step [OF lt])
    next
      case (Some dc)
      show ?thesis
      proof (cases "0 \<le> dc \<and> dc < 16")
        case False
        with True Some show ?thesis by (auto simp add: findDevices_loop_step [OF lt])
      next
        case inb: True
        let ?st1 = "st\<lparr>txAddress := a, txBuffer := [], trace := trace st @ [Transmission a []],
                       devices := (devices st)[nat dc := a], deviceCount := Some (dc + 1)\<rparr>"
        let ?rest = "acked_in env (trace ?st1) (scan_from (a + 1))"
        have eq: "acked_in env (trace st) (scan_from a) = a # ?rest"
          using True by (simp add: sf)
        from Suc.prems(2) Some inb have big: "\<not> dc + 1 + int (length ?rest) \<le> 16"
          unfolding eq by simp
        with inb have ne: "?rest \<noteq> []" by auto
        have "\<exists>e. findDevices_loop env (a + 1) ?st1 = Inl e"
          using ne big by (intro Suc.hyps(1) [OF n]) simp_all
        then show ?thesis
          using True Some inb by (simp add: findDevices_loop_step [OF lt])
      qed
    qed
  qed
qed

lemma acknowledging_env0: "acknowledging env0 st0 = [0x40]"
  by code_simp


section \<open>Scaled measurement reads\<close>

text \<open>
  What the three reads return, for either width of \<open>int\<close>: \<open>readCurrent\<close> and
  \<open>readBusVoltage\<close> return the value of their register times 1.25; \<open>readPower\<close> returns
  the value of the power register times 10 with a 32-bit \<open>int\<close>, and that product
  modulo \<open>2 ^ 16\<close> with a 16-bit \<open>int\<close>.
\<close>

lemma scaled_reads:
  "readCurrent env st =
     (of_nat (unat (fst (readRegister env INA260_CURRENT_REGISTER st))) * 1.25,
      snd (readRegister env INA260_CURRENT_REGISTER st)) \<and>
   readBusVoltage env st =
     (of_nat (unat (fst (readRegister env INA260_VOLTAGE_REGISTER st))) * 1.25,
      snd (readRegister env INA260_VOLTAGE_REGISTER st)) \<and>
   readPower env st =
     (of_nat (case int_width env of
                Int16 \<Rightarrow> unat (fst (readRegister env INA260_POWER_REGISTER st)) * 10 mod 65536
              | Int32 \<Rightarrow> unat (fst (readRegister env INA260_POWER_REGISTER st)) * 10),
      snd (readRegister env INA260_POWER_REGISTER st)) \<and>
   INA260_CURRENT_REGISTER = 1 \<and> INA260_VOLTAGE_REGISTER = 2 \<and> INA260_POWER_REGISTER = 3"
proof -
  have m: "(of_int (uint x * 10 mod 65536) :: rat) = of_nat (unat x * 10 mod 65536)" for x :: u16
  proof -
    have "uint x * 10 mod 65536 = int (unat x * 10 mod 65536)"
      by (simp add: zmod_int)
    then show ?thesis by (simp only: of_int_of_nat_eq)
  qed
  show ?thesis
    by (cases "int_width env")
      (simp_all add: readCurrent_def readBusVoltage_def readPower_def split_beta
        double_of_u16_def double_of_int_def sint_ucast_u16 u16_times_10_eq m register_defs)
qed

text \<open>
  Claim C1 says that \<open>readPower\<close> returns the value of the power register times 10 for
  every 16-bit value. The code does so only where \<open>int\<close> is wider than 16 bits. On a
  core with a 16-bit \<open>int\<close> the power register reading 6554 (65.54 W) makes
  \<open>readPower\<close> return 4, not 65540; on the same bus with a 32-bit \<open>int\<close> it returns
  65540. \<open>readCurrent\<close> and \<open>readBusVoltage\<close> multiply in floating point and are as
  the claim says on both.
\<close>

theorem C1_readPower_wraps:
  "fst (readRegister env_avr INA260_POWER_REGISTER st0) = 6554 \<and>
   fst (readPower env_avr st0) = 4 \<and>
   fst (readPower (env_avr\<lparr>int_width := Int32\<rparr>) st0) = 65540 \<and>
   fst (readCurrent env_avr st0) = 6554 * 1.25"
  by code_simp

section \<open>The alert limit\<close>

text \<open>
  What \<open>readAlertLimitRegister\<close> returns, for either width of \<open>int\<close>: it reads the
  Mask/Enable register (register 6) and then the alert-limit register (register 7).
  When the over-power-limit flag \<open>pol\<close> (bit 11 of Mask/Enable) is clear it returns the
  alert-limit value times 1.25; when the flag is set it returns the value times 10 with
  a 32-bit \<open>int\<close>, and that product modulo \<open>2 ^ 16\<close> with a 16-bit \<open>int\<close>.
\<close>

lemma alert_limit_scale:
  "readAlertLimitRegister env st =
     ((if bit (fst (readMaskEnableRegister env st)) 11
       then of_nat (case int_width env of
               Int16 \<Rightarrow> unat (fst (readRegister env INA260_ALERT_LIMIT_REGISTER
                                      (snd (readMaskEnableRegister env st)))) * 10 mod 65536
             | Int32 \<Rightarrow> unat (fst (readRegister env INA260_ALERT_LIMIT_REGISTER
                                      (snd (readMaskEnableRegister env st)))) * 10)
       else of_nat (unat (fst (readRegister env INA260_ALERT_LIMIT_REGISTER
                                  (snd (readMaskEnableRegister env st))))) * 1.25),
      snd (readRegister env INA260_ALERT_LIMIT_REGISTER (snd (readMaskEnableRegister env st)))) \<and>
   readMaskEnableRegister env st = readRegister env 6 st \<and> INA260_ALERT_LIMIT_REGISTER = 7"
proof -
  have m: "(of_int (uint x * 10 mod 65536) :: rat) = of_nat (unat x * 10 mod 65536)" for x :: u16
  proof -
    have "uint x * 10 mod 65536 = int (unat x * 10 mod 65536)"
      by (simp add: zmod_int)
    then show ?thesis by (simp only: of_int_of_nat_eq)
  qed
  show ?thesis
    by (cases "int_width env")
      (simp_all add: readAlertLimitRegister_def split_beta pol_is_bit11 double_of_u16_def
        double_of_int_def sint_ucast_u16 u16_times_10_eq m register_defs
        readMaskEnableRegister_def)
qed

text \<open>
  Claim C2 says that \<open>readAlertLimitRegister\<close> returns the alert-limit value times 10
  whenever \<open>pol\<close> is set. The code does so only where \<open>int\<close> is wider than 16 bits. On
  a core with a 16-bit \<open>int\<close>, with \<open>pol\<close> set and the alert-limit register reading
  6554, it returns 4, not 65540; on the same bus with a 32-bit \<open>int\<close> it returns 65540.
\<close>

theorem C2_alert_limit_wraps:
  "bit (fst (readMaskEnableRegister env_avr st0)) 11 \<and>
   fst (readRegister env_avr INA260_ALERT_LIMIT_REGISTER
          (snd (readMaskEnableRegister env_avr st0))) = 6554 \<and>
   fst (readAlertLimitRegister env_avr st0) = 4 \<and>
   fst (readAlertLimitRegister (env_avr\<lparr>int_width := Int32\<rparr>) st0) = 65540"
  by code_simp

text \<open>
  Claim C6. \<open>setCurrentLimit\<close> and \<open>setBusVoltageLimit\<close> write the argument divided by
  1.25, truncated, to the alert-limit register (register 7), and \<open>setPowerLimit\<close> writes
  the argument divided by 10, truncated. The truncated quotients are \<open>x * 4 div 5\<close> and
  \<open>x div 10\<close>, and both fit 16 bits.
\<close>

theorem C6_limit_setters:
  "trace (snd (setCurrentLimit env x st)) =
     trace st @ write_events (address st) INA260_ALERT_LIMIT_REGISTER
                 (word_of_int \<lfloor>of_nat (unat x) / (1.25 :: rat)\<rfloor>) \<and>
   trace (snd (setBusVoltageLimit env x st)) =
     trace st @ write_events (address st) INA260_ALERT_LIMIT_REGISTER
                 (word_of_int \<lfloor>of_nat (unat x) / (1.25 :: rat)\<rfloor>) \<and>
   trace (snd (setPowerLimit env x st)) =
     trace st @ write_events (address st) INA260_ALERT_LIMIT_REGISTER
                 (word_of_int \<lfloor>of_nat (unat x) / (10 :: rat)\<rfloor>) \<and>
   \<lfloor>of_nat (unat x) / (1.25 :: rat)\<rfloor> = int (unat x * 4 div 5) \<and>
   \<lfloor>of_nat (unat x) / (10 :: rat)\<rfloor> = int (unat x div 10) \<and>
   unat x * 4 div 5 < 65536 \<and> INA260_ALERT_LIMIT_REGISTER = 7"
proof -
  have f1: "\<lfloor>of_nat (unat x) / (1.25 :: rat)\<rfloor> = int (unat x * 4 div 5)"
  proof -
    have "of_nat (unat x) / (1.25 :: rat) = of_int (int (unat x * 4)) / of_int 5" by simp
    then have "\<lfloor>of_nat (unat x) / (1.25 :: rat)\<rfloor> = int (unat x * 4) div 5"
      by (simp only: floor_divide_of_int_eq)
    then show ?thesis by (simp add: zdiv_int)
  qed
  have f2: "\<lfloor>of_nat (unat x) / (10 :: rat)\<rfloor> = int (unat x div 10)"
  proof -
    have "of_nat (unat x) / (10 :: rat) = of_int (int (unat x)) / of_int 10" by simp
    then have "\<lfloor>of_nat (unat x) / (10 :: rat)\<rfloor> = int (unat x) div 10"
      by (simp only: floor_divide_of_int_eq)
    then show ?thesis by (simp add: zdiv_int)
  qed
  have b: "unat x * 4 div 5 < 65536" using unsigned_less [of x, where ?'a = nat] by simp
  have t1: "setCurrentLimit env x st =
      writeRegister env INA260_ALERT_LIMIT_REGISTER (word_of_nat (unat x * 4 div 5)) st"
    by (simp only: setCurrentLimit_def writeAlertLimitRegister_def div_1_25)
  have t2: "setBusVoltageLimit env x st =
      writeRegister env INA260_ALERT_LIMIT_REGISTER (word_of_nat (unat x * 4 div 5)) st"
    by (simp only: setBusVoltageLimit_def writeAlertLimitRegister_def div_1_25)
  have t3: "setPowerLimit env x st =
      writeRegister env INA260_ALERT_LIMIT_REGISTER (word_of_nat (unat x div 10)) st"
    by (simp only: setPowerLimit_def writeAlertLimitRegister_def div_10)
  show ?thesis
    unfolding f1 f2 t1 t2 t3
    using b
    by (simp add: writeRegister_eq register_defs)
qed

section \<open>Alert configuration\<close>

text \<open>
  Claim C3. Each of the five alert-enable methods reads the Mask/Enable register, then
  runs its limit setter (\<open>setCurrentLimit\<close>, \<open>setBusVoltageLimit\<close> or \<open>setPowerLimit\<close>)
  with the given argument, and only then writes the Mask/Enable register: the bus trace
  is the trace of the read followed by the limit setter, extended by one write of a
  value \<open>m\<close> to the Mask/Enable register. Of the five limit-selection flags of \<open>m\<close>,
  exactly the one that belongs to the method is set.
\<close>

theorem C3_enable_alerts:
  "(\<exists>m. trace (snd (enableOverCurrentLimitAlert env x st)) =
         trace (snd (setCurrentLimit env x (snd (readMaskEnableRegister env st)))) @
           write_events (address st) INA260_MASK_ENABLE_REGISTER m \<and>
        limit_flags m = (True, False, False, False, False)) \<and>
   (\<exists>m. trace (snd (enableUnderCurrentLimitAlert env x st)) =
         trace (snd (setCurrentLimit env x (snd (readMaskEnableRegister env st)))) @
           write_events (address st) INA260_MASK_ENABLE_REGISTER m \<and>
        limit_flags m = (False, True, False, False, False)) \<and>
   (\<exists>m. trace (snd (enableBusOvertLimitAlert env x st)) =
         trace (snd (setBusVoltageLimit env x (snd (readMaskEnableRegister env st)))) @
           write_events (address st) INA260_MASK_ENABLE_REGISTER m \<and>
        limit_flags m = (False, False, True, False, False)) \<and>
   (\<exists>m. trace (snd (enableBusUnderLimitAlert env x st)) =
         trace (snd (setBusVoltageLimit env x (snd (readMaskEnableRegister env st)))) @
           write_events (address st) INA260_MASK_ENABLE_REGISTER m \<and>
        limit_flags m = (False, False, False, True, False)) \<and>
   (\<exists>m. trace (snd (enableOverPowerLimitAlert env x st)) =
         trace (snd (setPowerLimit env x (snd (readMaskEnableRegister env st)))) @
           write_events (address st) INA260_MASK_ENABLE_REGISTER m \<and>
        limit_flags m = (False, False, False, False, True))"
proof -
  have ocl_case: "\<exists>m. trace (snd (enableOverCurrentLimitAlert env x st)) =
         trace (snd (setCurrentLimit env x (snd (readMaskEnableRegister env st)))) @
           write_events (address st) INA260_MASK_ENABLE_REGISTER m \<and>
        limit_flags m = (True, False, False, False, False)"
    by (rule exI [where x = "set_field pol 0 (set_field bul 0 (set_field bol 0 (set_field ucl 0 (set_field ocl 1 (fst (readMaskEnableRegister env st))))))"])
      (simp add: enableOverCurrentLimitAlert_def setCurrentLimit_def split_beta Let_def enable_trace limit_flags_set)
  have ucl_case: "\<exists>m. trace (snd (enableUnderCurrentLimitAlert env x st)) =
         trace (snd (setCurrentLimit env x (snd (readMaskEnableRegister env st)))) @
           write_events (address st) INA260_MASK_ENABLE_REGISTER m \<and>
        limit_flags m = (False, True, False, False, False)"
    by (rule exI [where x = "set_field pol 0 (set_field bul 0 (set_field bol 0 (set_field ucl 1 (set_field ocl 0 (fst (readMaskEnableRegister env st))))))"])
      (simp add: enableUnderCurrentLimitAlert_def setCurrentLimit_def split_beta Let_def enable_trace limit_flags_set)
  have bol_case: "\<exists>m. trace (snd (enableBusOvertLimitAlert env x st)) =
         trace (snd (setBusVoltageLimit env x (snd (readMaskEnableRegister env st)))) @
           write_events (address st) INA260_MASK_ENABLE_REGISTER m \<and>
        limit_flags m = (False, False, True, False, False)"
    by (rule exI [where x = "set_field pol 0 (set_field bul 0 (set_field bol 1 (set_field ucl 0 (set_field ocl 0 (fst (readMaskEnableRegister env st))))))"])
      (simp add: enableBusOvertLimitAlert_def setBusVoltageLimit_def split_beta Let_def enable_trace limit_flags_set)
  have bul_case: "\<exists>m. trace (snd (enableBusUnderLimitAlert env x st)) =
         trace (snd (setBusVoltageLimit env x (snd (readMaskEnableRegister env st)))) @
           write_events (address st) INA260_MASK_ENABLE_REGISTER m \<and>
        limit_flags m = (False, False, False, True, False)"
    by (rule exI [where x = "set_field pol 0 (set_field bul 1 (set_field bol 0 (set_field ucl 0 (set_field ocl 0 (fst (readMaskEnableRegister env st))))))"])
      (simp add: enableBusUnderLimitAlert_def setBusVoltageLimit_def split_beta Let_def enable_trace limit_flags_set)
  have pol_case: "\<exists>m. trace (snd (enableOverPowerLimitAlert env x st)) =
         trace (snd (setPowerLimit env x (snd (readMaskEnableRegister env st)))) @
           write_events (address st) INA260_MASK_ENABLE_REGISTER m \<and>
        limit_flags m = (False, False, False, False, True)"
    by (rule exI [where x = "set_field pol 1 (set_field bul 0 (set_field bol 0 (set_field ucl 0 (set_field ocl 0 (fst (readMaskEnableRegister env st))))))"])
      (simp add: enableOverPowerLimitAlert_def setPowerLimit_def split_beta Let_def enable_trace limit_flags_set)
  from ocl_case ucl_case bol_case bul_case pol_case show ?thesis
    by (intro conjI)
qed

section \<open>Read-modify-write of single fields\<close>

text \<open>
  Claim C5. Each single-field setter reads its register once and writes one value \<open>w\<close>
  back to the same register. Outside the bits of the targeted field (\<open>mode\<close> bits 0-2,
  \<open>ishct\<close> bits 3-5, \<open>vbusct\<close> bits 6-8, \<open>avg\<close> bits 9-11 of the Configuration register;
  \<open>apol\<close> bit 1, \<open>len\<close> bit 0, \<open>cnvr\<close> bit 10 of the Mask/Enable register) \<open>w\<close> equals
  the value just read, and the targeted field of \<open>w\<close> holds the argument.
\<close>

theorem C5_single_field_setters:
  "(\<exists>w. trace (setMode env x st) =
          trace st @ read_events (address st) INA260_CONFIG_REGISTER @ write_events (address st) INA260_CONFIG_REGISTER w \<and>
        w AND NOT 0x0007 = fst (readConfigurationRegister env st) AND NOT 0x0007 \<and>
        get_field mode w = Mode_val x) \<and>
   (\<exists>w. trace (snd (setCurrentConversionTime env t st)) =
          trace st @ read_events (address st) INA260_CONFIG_REGISTER @ write_events (address st) INA260_CONFIG_REGISTER w \<and>
        w AND NOT 0x0038 = fst (readConfigurationRegister env st) AND NOT 0x0038 \<and>
        get_field ishct w = ConversionTime_val t) \<and>
   (\<exists>w. trace (snd (setVoltageConversionTime env t st)) =
          trace st @ read_events (address st) INA260_CONFIG_REGISTER @ write_events (address st) INA260_CONFIG_REGISTER w \<and>
        w AND NOT 0x01C0 = fst (readConfigurationRegister env st) AND NOT 0x01C0 \<and>
        get_field vbusct w = ConversionTime_val t) \<and>
   (\<exists>w. trace (snd (setAveragingCount env c st)) =
          trace st @ read_events (address st) INA260_CONFIG_REGISTER @ write_events (address st) INA260_CONFIG_REGISTER w \<and>
        w AND NOT 0x0E00 = fst (readConfigurationRegister env st) AND NOT 0x0E00 \<and>
        get_field avg w = AveragingCount_val c) \<and>
   (\<exists>w. trace (snd (setAlertPolarity env b st)) =
          trace st @ read_events (address st) INA260_MASK_ENABLE_REGISTER @ write_events (address st) INA260_MASK_ENABLE_REGISTER w \<and>
        w AND NOT 0x0002 = fst (readMaskEnableRegister env st) AND NOT 0x0002 \<and>
        get_field apol w = of_bool b) \<and>
   (\<exists>w. trace (snd (setAlertLatch env b st)) =
          trace st @ read_events (address st) INA260_MASK_ENABLE_REGISTER @ write_events (address st) INA260_MASK_ENABLE_REGISTER w \<and>
        w AND NOT 0x0001 = fst (readMaskEnableRegister env st) AND NOT 0x0001 \<and>
        get_field len w = of_bool b) \<and>
   (\<exists>w. trace (snd (setConversionReadyAlert env b st)) =
          trace st @ read_events (address st) INA260_MASK_ENABLE_REGISTER @ write_events (address st) INA260_MASK_ENABLE_REGISTER w \<and>
        w AND NOT 0x0400 = fst (readMaskEnableRegister env st) AND NOT 0x0400 \<and>
        get_field cnvr w = of_bool b)"
proof -
  have mode_case: "\<exists>w. trace (setMode env x st) =
          trace st @ read_events (address st) INA260_CONFIG_REGISTER @ write_events (address st) INA260_CONFIG_REGISTER w \<and>
        w AND NOT 0x0007 = fst (readConfigurationRegister env st) AND NOT 0x0007 \<and>
        get_field mode w = Mode_val x"
    unfolding setMode_def split_beta Let_def readConfigurationRegister_def
      writeConfigurationRegister_def readMaskEnableRegister_def writeMaskEnableRegister_def
    by (rule exI [where x = "set_field mode (Mode_val x) (fst (readRegister env INA260_CONFIG_REGISTER st))"])
      (simp only: rmw_trace set_field_frames get_set_fields enum_vals_fit simp_thms)
  have ishct_case: "\<exists>w. trace (snd (setCurrentConversionTime env t st)) =
          trace st @ read_events (address st) INA260_CONFIG_REGISTER @ write_events (address st) INA260_CONFIG_REGISTER w \<and>
        w AND NOT 0x0038 = fst (readConfigurationRegister env st) AND NOT 0x0038 \<and>
        get_field ishct w = ConversionTime_val t"
    unfolding setCurrentConversionTime_def split_beta Let_def readConfigurationRegister_def
      writeConfigurationRegister_def readMaskEnableRegister_def writeMaskEnableRegister_def
    by (rule exI [where x = "set_field ishct (ConversionTime_val t) (fst (readRegister env INA260_CONFIG_REGISTER st))"])
      (simp only: rmw_trace set_field_frames get_set_fields enum_vals_fit simp_thms)
  have vbusct_case: "\<exists>w. trace (snd (setVoltageConversionTime env t st)) =
          trace st @ read_events (address st) INA260_CONFIG_REGISTER @ write_events (address st) INA260_CONFIG_REGISTER w \<and>
        w AND NOT 0x01C0 = fst (readConfigurationRegister env st) AND NOT 0x01C0 \<and>
        get_field vbusct w = ConversionTime_val t"
    unfolding setVoltageConversionTime_def split_beta Let_def readConfigurationRegister_def
      writeConfigurationRegister_def readMaskEnableRegister_def writeMaskEnableRegister_def
    by (rule exI [where x = "set_field vbusct (ConversionTime_val t) (fst (readRegister env INA260_CONFIG_REGISTER st))"])
      (simp only: rmw_trace set_field_frames get_set_fields enum_vals_fit simp_thms)
  have avg_case: "\<exists>w. trace (snd (setAveragingCount env c st)) =
          trace st @ read_events (address st) INA260_CONFIG_REGISTER @ write_events (address st) INA260_CONFIG_REGISTER w \<and>
        w AND NOT 0x0E00 = fst (readConfigurationRegister env st) AND NOT 0x0E00 \<and>
        get_field avg w = AveragingCount_val c"
    unfolding setAveragingCount_def split_beta Let_def readConfigurationRegister_def
      writeConfigurationRegister_def readMaskEnableRegister_def writeMaskEnableRegister_def
    by (rule exI [where x = "set_field avg (AveragingCount_val c) (fst (readRegister env INA260_CONFIG_REGISTER st))"])
      (simp only: rmw_trace set_field_frames get_set_fields enum_vals_fit simp_thms)
  have apol_case: "\<exists>w. trace (snd (setAlertPolarity env b st)) =
          trace st @ read_events (address st) INA260_MASK_ENABLE_REGISTER @ write_events (address st) INA260_MASK_ENABLE_REGISTER w \<and>
        w AND NOT 0x0002 = fst (readMaskEnableRegister env st) AND NOT 0x0002 \<and>
        get_field apol w = of_bool b"
    unfolding setAlertPolarity_def split_beta Let_def readConfigurationRegister_def
      writeConfigurationRegister_def readMaskEnableRegister_def writeMaskEnableRegister_def
    by (rule exI [where x = "set_field apol (of_bool b) (fst (readRegister env INA260_MASK_ENABLE_REGISTER st))"])
      (simp only: rmw_trace set_field_frames get_set_fields enum_vals_fit simp_thms)
  have len_case: "\<exists>w. trace (snd (setAlertLatch env b st)) =
          trace st @ read_events (address st) INA260_MASK_ENABLE_REGISTER @ write_events (address st) INA260_MASK_ENABLE_REGISTER w \<and>
        w AND NOT 0x0001 = fst (readMaskEnableRegister env st) AND NOT 0x0001 \<and>
        get_field len w = of_bool b"
    unfolding setAlertLatch_def split_beta Let_def readConfigurationRegister_def
      writeConfigurationRegister_def readMaskEnableRegister_def writeMaskEnableRegister_def
    by (rule exI [where x = "set_field len (of_bool b) (fst (readRegister env INA260_MASK_ENABLE_REGISTER st))"])
      (simp only: rmw_trace set_field_frames get_set_fields enum_vals_fit simp_thms)
  have cnvr_case: "\<exists>w. trace (snd (setConversionReadyAlert env b st)) =
          trace st @ read_events (address st) INA260_MASK_ENABLE_REGISTER @ write_events (address st) INA260_MASK_ENABLE_REGISTER w \<and>
        w AND NOT 0x0400 = fst (readMaskEnableRegister env st) AND NOT 0x0400 \<and>
        get_field cnvr w = of_bool b"
    unfolding setConversionReadyAlert_def split_beta Let_def readConfigurationRegister_def
      writeConfigurationRegister_def readMaskEnableRegister_def writeMaskEnableRegister_def
    by (rule exI [where x = "set_field cnvr (of_bool b) (fst (readRegister env INA260_MASK_ENABLE_REGISTER st))"])
      (simp only: rmw_trace set_field_frames get_set_fields enum_vals_fit simp_thms)
  from mode_case ishct_case vbusct_case avg_case apol_case len_case cnvr_case show ?thesis
    by (intro conjI)
qed

section \<open>Bus transactions per call\<close>

text \<open>
  Claim C4, as stated, fails: on a bus with one device, \<open>readAlertLimitRegister\<close>
  performs two register reads, which are four bus transactions.
\<close>

theorem C4_counterexample:
  "register_reads (trace (snd (readAlertLimitRegister env0 st0))) = 2 \<and>
   length (trace (snd (readAlertLimitRegister env0 st0))) = 4"
  by (simp add: readAlertLimitRegister_def readMaskEnableRegister_def readRegister_eq
      split_beta st0_def counts_simps)

text \<open>
  Claim C4, amended. Every public method other than \<open>findDevices\<close> performs at most two
  register reads and at most two register writes per call; a register read is two bus
  transactions (the pointer write and the two-byte request) and a register write is one.
  Two reads occur exactly in \<open>readAlertLimitRegister\<close>, two writes exactly in the five
  alert-enable methods; \<open>bus_cost\<close> gives the numbers for every method.
\<close>

theorem C4_bus_cost:
  assumes "c \<noteq> FindDevices"
  shows "\<exists>r st' evs. exec env c st = Inr (r, st') \<and> trace st' = trace st @ evs \<and>
           length evs = 2 * register_reads evs + register_writes evs \<and>
           register_reads evs = fst (bus_cost c) \<and> register_writes evs = snd (bus_cost c) \<and>
           register_reads evs \<le> 2 \<and> register_writes evs \<le> 2 \<and>
           (register_reads evs = 2 \<longleftrightarrow> c = ReadAlertLimitRegister) \<and>
           (register_writes evs = 2 \<longleftrightarrow> is_enable c)"
proof -
  have "\<exists>r st' evs. exec env c st = Inr (r, st') \<and> trace st' = trace st @ evs \<and>
           length evs = 2 * register_reads evs + register_writes evs \<and>
           register_reads evs = fst (bus_cost c) \<and> register_writes evs = snd (bus_cost c)"
    using assms
    by (cases c)
      (simp_all add: ret_def driver_defs readRegister_eq writeRegister_eq split_beta Let_def
        Wire_begin_def bus_cost_def counts_simps)
  then obtain r st' evs where
    "exec env c st = Inr (r, st')" "trace st' = trace st @ evs"
    "length evs = 2 * register_reads evs + register_writes evs"
    "register_reads evs = fst (bus_cost c)" "register_writes evs = snd (bus_cost c)"
    by blast
  with bus_cost_bounds [of c] show ?thesis by auto
qed

theorem C4_bus_cost_witness:
  "\<exists>r st' evs. exec env0 (EnableOverPowerLimitAlert 500) st0 = Inr (r, st') \<and>
      trace st' = evs \<and> length evs = 4 \<and> register_reads evs = 1 \<and> register_writes evs = 2"
  using C4_bus_cost [of "EnableOverPowerLimitAlert 500" env0 st0]
  by (auto simp add: st0_def bus_cost_def)

section \<open>The object's fields\<close>

text \<open>
  Claim C8, as stated, fails: the address and the discovery buffer are not the driver's
  only persistent state. \<open>begin\<close> keeps a function-local static flag, \<open>wireInitialized\<close>,
  and sets it; the flag stays set across later calls.
\<close>

theorem C8_counterexample:
  "wireInitialized st0 = False \<and>
   wireInitialized (snd (INA260_begin env0 st0)) = True \<and>
   wireInitialized (snd (readCurrent env0 (snd (INA260_begin env0 st0)))) = True \<and>
   result (exec env0 Begin st0) = Some (RBool True)"
  by code_simp

text \<open>
  Claim C8, amended. The driver's persistent state is the device address, the discovery
  buffer and the static flag of \<open>begin\<close>. Every public method other than \<open>setAddress\<close>
  and \<open>findDevices\<close> returns normally and leaves the three fields of the object,
  \<open>address\<close>, \<open>devices\<close> and \<open>deviceCount\<close>, as they were; of these methods only
  \<open>begin\<close> changes the flag, which it sets. The state has no other component of the
  driver: no register value is kept between calls.
\<close>

theorem C8_object_frame:
  assumes "c \<noteq> FindDevices" and "\<forall>a. c \<noteq> SetAddress a"
  shows "\<exists>r st'. exec env c st = Inr (r, st') \<and> address st' = address st \<and>
           devices st' = devices st \<and> deviceCount st' = deviceCount st \<and>
           wireInitialized st' = (wireInitialized st \<or> c = Begin)"
  using assms
  by (cases c)
    (simp_all add: ret_def driver_defs readRegister_eq writeRegister_eq split_beta Let_def
      Wire_begin_def)

theorem C8_object_frame_witness:
  "\<exists>r st'. exec env0 (EnableOverCurrentLimitAlert 1000) st0 = Inr (r, st') \<and>
      address st' = 0x40 \<and> devices st' = replicate 16 0 \<and> deviceCount st' = Some 0 \<and>
      wireInitialized st' = False"
  using C8_object_frame [of "EnableOverCurrentLimitAlert 1000" env0 st0]
  by (simp add: st0_def)

section \<open>Failed reads\<close>

text \<open>
  Claim C9. When the bus delivers fewer than two bytes for a register read,
  \<open>readRegister\<close> returns 0. Every read accessor returns a value, never an error, and
  the value is the one it returns on the bus where the short reads are replaced by
  genuine zero bytes.
\<close>

theorem C9_failed_read_is_zero:
  "(length (reg_bytes env (trace st) (address st) reg) < 2 \<longrightarrow>
      fst (readRegister env reg st) = 0) \<and>
   (is_read_accessor c \<longrightarrow>
      (\<exists>r. result (exec env c st) = Some r) \<and>
      result (exec env c st) = result (exec (zero_fill env) c st))"
proof (intro conjI impI)
  assume "length (reg_bytes env (trace st) (address st) reg) < 2"
  then show "fst (readRegister env reg st) = 0" by (rule readRegister_short)
next
  assume "is_read_accessor c"
  then show "\<exists>r. result (exec env c st) = Some r"
    by (cases c) (simp_all add: result_def ret_def)
next
  assume "is_read_accessor c"
  then show "result (exec env c st) = result (exec (zero_fill env) c st)"
    by (cases c)
      (simp_all add: result_def ret_def driver_defs readRegister_eq split_beta Let_def
        reg_value_zero_fill int_width_zero_fill)
qed

theorem C9_failed_read_is_zero_witness:
  "length (reg_bytes env_short (trace st0) (address st0) INA260_CURRENT_REGISTER) < 2 \<and>
   fst (readRegister env_short INA260_CURRENT_REGISTER st0) = 0 \<and>
   is_read_accessor ReadCurrent \<and>
   result (exec env_short ReadCurrent st0) = Some (RFloat 0) \<and>
   result (exec (zero_fill env_short) ReadCurrent st0) = Some (RFloat 0)"
proof -
  have h: "length (reg_bytes env_short (trace st0) (address st0) INA260_CURRENT_REGISTER) < 2"
    by (simp add: reg_bytes_def env_short_def)
  have z: "fst (readRegister env_short INA260_CURRENT_REGISTER st0) = 0"
    using C9_failed_read_is_zero [of env_short st0 INA260_CURRENT_REGISTER ReadCurrent] h
    by simp
  have e: "result (exec env_short ReadCurrent st0) = Some (RFloat 0)"
    using z by (simp add: result_def ret_def readCurrent_def split_beta double_of_u16_def)
  have "result (exec env_short ReadCurrent st0) = result (exec (zero_fill env_short) ReadCurrent st0)"
    using C9_failed_read_is_zero [of env_short st0 INA260_CURRENT_REGISTER ReadCurrent]
    by simp
  with h z e show ?thesis by simp
qed

section \<open>Device discovery\<close>

text \<open>
  Claim C7, as stated, fails: the scan does not cover the whole 7-bit address space. On a
  bus where the addresses 0 and 127 would acknowledge, \<open>findDevices\<close> issues 126
  transactions, none of them to address 0 or 127, and records nothing.
\<close>

theorem C7_counterexample:
  "ack env_edge (trace st0) 0 [] = 0 \<and> ack env_edge (trace st0) 127 [] = 0 \<and>
   findDevices env_edge st0 = Inr st_scanned \<and>
   deviceCount st_scanned = deviceCount st0 \<and> devices st_scanned = devices st0 \<and>
   Transmission 0 [] \<notin> set (trace st_scanned) \<and>
   Transmission 127 [] \<notin> set (trace st_scanned) \<and>
   length (trace st_scanned) = 126"
  by code_simp

text \<open>
  Claim C7, amended. \<open>findDevices\<close> scans the addresses 1 to 126 in increasing order,
  issuing one zero-length transmission per address. When \<open>deviceCount\<close> holds a value
  \<open>dc \<ge> 0\<close> and \<open>dc\<close> plus the number of acknowledging addresses is at most 16, it
  returns normally, the acknowledging addresses are stored in \<open>devices\<close> from index
  \<open>dc\<close> on in scan order, \<open>deviceCount\<close> has grown by their number, and the rest of
  \<open>devices\<close> and the device address are unchanged.
\<close>

theorem C7_findDevices_scan:
  assumes "deviceCount st = Some dc" and "0 \<le> dc"
    and "dc + int (length (acknowledging env st)) \<le> 16"
    and "length (devices st) = 16"
  shows "\<exists>st'. findDevices env st = Inr st' \<and>
           trace st' = trace st @ map (\<lambda>n. Transmission (of_nat n) []) [1..<127] \<and>
           deviceCount st' = Some (dc + int (length (acknowledging env st))) \<and>
           devices st' = take (nat dc) (devices st) @ acknowledging env st @
                           drop (nat dc + length (acknowledging env st)) (devices st) \<and>
           address st' = address st"
  using findDevices_loop_ok [of st dc env 1] assms
  by (simp add: findDevices_def acknowledging_def scan_from_1 [symmetric])
     (simp add: scan_from_1 scan_range_def comp_def)

theorem C7_findDevices_scan_witness:
  "\<exists>st'. findDevices env0 st0 = Inr st' \<and> deviceCount st' = Some 1 \<and>
      devices st' = 0x40 # replicate 15 0 \<and> length (trace st') = 126 \<and>
      address st' = 0x40"
proof -
  have h: "deviceCount st0 = Some 0" "length (devices st0) = 16"
    by (simp_all add: st0_def)
  have h3: "0 + int (length (acknowledging env0 st0)) \<le> 16"
    by (simp add: acknowledging_env0)
  have d: "take (nat 0) (devices st0) @ [0x40] @
             drop (nat 0 + length [0x40 :: u8]) (devices st0) = 0x40 # replicate 15 0"
    by (simp add: st0_def)
  have "\<exists>st'. findDevices env0 st0 = Inr st' \<and>
           trace st' = trace st0 @ map (\<lambda>n. Transmission (of_nat n) []) [1..<127] \<and>
           deviceCount st' = Some (0 + int (length [0x40 :: u8])) \<and>
           devices st' = 0x40 # replicate 15 0 \<and>
           address st' = address st0"
    using C7_findDevices_scan [OF h(1) order_refl h3 h(2)] unfolding acknowledging_env0 d .
  then show ?thesis by (auto simp add: st0_def)
qed

text \<open>
  Claim C10. The constructor leaves \<open>deviceCount\<close> as it finds it, and \<open>findDevices\<close>
  checks no bound: when at least one address acknowledges, every store into the
  16-element array is in bounds (the call returns normally) exactly when \<open>deviceCount\<close>
  holds a value, the value is not negative, and the value plus the number of
  acknowledging addresses is at most 16.
\<close>

theorem C10_store_in_bounds:
  assumes "acknowledging env st \<noteq> []" and "length (devices st) = 16"
  shows "((\<exists>st'. findDevices env st = Inr st') \<longleftrightarrow>
           (\<exists>dc. deviceCount st = Some dc \<and> 0 \<le> dc \<and>
                 dc + int (length (acknowledging env st)) \<le> 16)) \<and>
         deviceCount (INA260 st) = deviceCount st"
proof -
  have "\<exists>st'. findDevices env st = Inr st'"
    if "deviceCount st = Some dc" "0 \<le> dc" "dc + int (length (acknowledging env st)) \<le> 16" for dc
    using findDevices_loop_ok [of st dc env 1] that assms(2)
    by (auto simp add: findDevices_def acknowledging_def scan_from_1)
  moreover have "\<exists>e. findDevices env st = Inl e"
    if "\<not> (\<exists>dc. deviceCount st = Some dc \<and> 0 \<le> dc \<and>
                 dc + int (length (acknowledging env st)) \<le> 16)"
    using findDevices_loop_fails [of env st 1] that assms(1)
    by (simp add: findDevices_def acknowledging_def scan_from_1)
  ultimately have "(\<exists>st'. findDevices env st = Inr st') \<longleftrightarrow>
           (\<exists>dc. deviceCount st = Some dc \<and> 0 \<le> dc \<and>
                 dc + int (length (acknowledging env st)) \<le> 16)"
    by (metis sum.distinct(1))
  then show ?thesis by (simp add: INA260_def)
qed

theorem C10_store_in_bounds_witness:
  "acknowledging env0 st0 \<noteq> [] \<and> length (devices st0) = 16 \<and>
   (\<exists>st'. findDevices env0 st0 = Inr st') \<and>
   \<not> (\<exists>st'. findDevices env0 (st0\<lparr>deviceCount := Some 16\<rparr>) = Inr st') \<and>
   \<not> (\<exists>st'. findDevices env0 (st0\<lparr>deviceCount := None\<rparr>) = Inr st')"
proof -
  have a: "acknowledging env0 st = [0x40]" if "trace st = trace st0" for st
    using that acknowledging_env0 by (simp add: acknowledging_def)
  have l: "length (devices st0) = 16" by (simp add: st0_def)
  have "\<exists>st'. findDevices env0 st0 = Inr st'"
    using C10_store_in_bounds [of env0 st0] l by (simp add: a) (simp add: st0_def)
  moreover have "\<not> (\<exists>st'. findDevices env0 (st0\<lparr>deviceCount := Some 16\<rparr>) = Inr st')"
    using C10_store_in_bounds [of env0 "st0\<lparr>deviceCount := Some 16\<rparr>"] l by (simp add: a)
  moreover have "\<not> (\<exists>st'. findDevices env0 (st0\<lparr>deviceCount := None\<rparr>) = Inr st')"
    using C10_store_in_bounds [of env0 "st0\<lparr>deviceCount := None\<rparr>"] l by (simp add: a)
  ultimately show ?thesis using l by (simp add: a)
qed

end
